theory Spec2Isabelle
  imports Main
begin

section \<open>The coordination store\<close>

text \<open>
  The router keeps all routing state in a Redis-compatible store. The store is modelled by
  the commands the router issues: GET, SET with expiry, ZADD, ZREM and ZCOUNT. A key holds
  a string (with an optional expiry instant, in milliseconds) or a sorted set (members with
  their scores). A command on a key of the wrong kind fails, and a command may fail with an
  input/output error: \<open>faulty\<close> gives, for a key, the message of that error.
\<close>

text \<open>
  A sorted set is held as the list of its members with their scores. The commands keep each
  member once in the list; the order of the list has no meaning.
\<close>

type_synonym zset = "(string \<times> int) list"

datatype rvalue = RString string "int option" | RZSet zset

datatype redis_err = RedisNil | WrongType | IOErr string

record redis =
  keyspace :: "string \<rightharpoonup> rvalue"
  faulty :: "string \<rightharpoonup> string"

text \<open>A string key is gone once the clock has passed its expiry instant.\<close>

definition visible :: "redis \<Rightarrow> int \<Rightarrow> string \<Rightarrow> rvalue option" where
  "visible st now k =
     (case keyspace st k of
        Some (RString v (Some e)) \<Rightarrow> if e < now then None else Some (RString v (Some e))
      | r \<Rightarrow> r)"

definition redis_get :: "redis \<Rightarrow> int \<Rightarrow> string \<Rightarrow> redis_err + string" where
  "redis_get st now k =
     (case faulty st k of
        Some msg \<Rightarrow> Inl (IOErr msg)
      | None \<Rightarrow>
          (case visible st now k of
             None \<Rightarrow> Inl RedisNil
           | Some (RString v e) \<Rightarrow> Inr v
           | Some (RZSet z) \<Rightarrow> Inl WrongType))"

text \<open>SET with a positive time to live sets the expiry; otherwise the key does not expire.\<close>

definition redis_set :: "redis \<Rightarrow> int \<Rightarrow> string \<Rightarrow> string \<Rightarrow> int \<Rightarrow> redis_err option \<times> redis" where
  "redis_set st now k v ttl =
     (case faulty st k of
        Some msg \<Rightarrow> (Some (IOErr msg), st)
      | None \<Rightarrow>
          (None, st\<lparr>keyspace := (keyspace st)
                     (k \<mapsto> RString v (if 0 < ttl then Some (now + ttl) else None))\<rparr>))"

definition zset_put :: "string \<Rightarrow> int \<Rightarrow> zset \<Rightarrow> zset" where
  "zset_put m s z = (m, s) # filter (\<lambda>p. fst p \<noteq> m) z"

definition zset_del :: "string \<Rightarrow> zset \<Rightarrow> zset" where
  "zset_del m z = filter (\<lambda>p. fst p \<noteq> m) z"

definition zset_count :: "int \<Rightarrow> int \<Rightarrow> zset \<Rightarrow> int" where
  "zset_count lo hi z = int (length (filter (\<lambda>p. lo \<le> snd p \<and> snd p \<le> hi) z))"

definition redis_zadd :: "redis \<Rightarrow> int \<Rightarrow> string \<Rightarrow> int \<Rightarrow> string \<Rightarrow> redis_err option \<times> redis" where
  "redis_zadd st now k s m =
     (case faulty st k of
        Some msg \<Rightarrow> (Some (IOErr msg), st)
      | None \<Rightarrow>
          (case visible st now k of
             None \<Rightarrow> (None, st\<lparr>keyspace := (keyspace st)(k \<mapsto> RZSet [(m, s)])\<rparr>)
           | Some (RZSet z) \<Rightarrow> (None, st\<lparr>keyspace := (keyspace st)(k \<mapsto> RZSet (zset_put m s z))\<rparr>)
           | Some (RString v e) \<Rightarrow> (Some WrongType, st)))"

text \<open>ZREM of an absent member removes nothing; a sorted set left empty is deleted.\<close>

definition redis_zrem :: "redis \<Rightarrow> int \<Rightarrow> string \<Rightarrow> string \<Rightarrow> redis_err option \<times> redis" where
  "redis_zrem st now k m =
     (case faulty st k of
        Some msg \<Rightarrow> (Some (IOErr msg), st)
      | None \<Rightarrow>
          (case visible st now k of
             None \<Rightarrow> (None, st)
           | Some (RZSet z) \<Rightarrow>
               (None, st\<lparr>keyspace :=
                  (if zset_del m z = [] then (keyspace st)(k := None)
                   else (keyspace st)(k \<mapsto> RZSet (zset_del m z)))\<rparr>)
           | Some (RString v e) \<Rightarrow> (Some WrongType, st)))"

definition redis_zcount :: "redis \<Rightarrow> int \<Rightarrow> string \<Rightarrow> int \<Rightarrow> int \<Rightarrow> redis_err + int" where
  "redis_zcount st now k lo hi =
     (case faulty st k of
        Some msg \<Rightarrow> Inl (IOErr msg)
      | None \<Rightarrow>
          (case visible st now k of
             None \<Rightarrow> Inr 0
           | Some (RZSet z) \<Rightarrow> Inr (zset_count lo hi z)
           | Some (RString v e) \<Rightarrow> Inl WrongType))"

fun redis_err_msg :: "redis_err \<Rightarrow> string" where
  "redis_err_msg RedisNil = ''redis: nil''"
| "redis_err_msg WrongType = ''WRONGTYPE Operation against a key holding the wrong kind of value''"
| "redis_err_msg (IOErr msg) = msg"

section \<open>The routing state manager\<close>

text \<open>
  The fields of \<open>ProxyService\<close> other than the store client. \<open>MappingTTL\<close> is held in
  milliseconds, the unit of the scores; the loader makes it a whole number of seconds.
\<close>

record ProxyService =
  BackendIPs :: "string list"
  MaxRequestsPerBackend :: int
  MappingTTL :: int
  AllowOrigin :: string

text \<open>\<open>getBackendStatus\<close>: ZCOUNT of the backend's sorted set over \<open>[now - TTL, now]\<close>.\<close>

definition getBackendStatus :: "ProxyService \<Rightarrow> redis \<Rightarrow> int \<Rightarrow> string \<Rightarrow> redis_err + int" where
  "getBackendStatus ps st now backendIP =
     redis_zcount st now (''backend:'' @ backendIP) (now - MappingTTL ps) now"

text \<open>
  The loop of \<open>getLeastLoadedBackend\<close>, on the pair \<open>(leastLoadedIP, minRequests)\<close>:
  a backend whose count query fails is skipped.
\<close>

fun leastLoop :: "ProxyService \<Rightarrow> redis \<Rightarrow> int \<Rightarrow> string list \<Rightarrow> string \<times> int \<Rightarrow> string \<times> int" where
  "leastLoop ps st now [] acc = acc"
| "leastLoop ps st now (backendIP # rest) (leastLoadedIP, minRequests) =
     (case getBackendStatus ps st now backendIP of
        Inl err \<Rightarrow> leastLoop ps st now rest (leastLoadedIP, minRequests)
      | Inr activeRequests \<Rightarrow>
          if activeRequests < minRequests
          then leastLoop ps st now rest (backendIP, activeRequests)
          else leastLoop ps st now rest (leastLoadedIP, minRequests))"

definition getLeastLoadedBackend :: "ProxyService \<Rightarrow> redis \<Rightarrow> int \<Rightarrow> string + string" where
  "getLeastLoadedBackend ps st now =
     (let leastLoadedIP = fst (leastLoop ps st now (BackendIPs ps) ('''', MaxRequestsPerBackend ps))
      in if leastLoadedIP = '''' then Inl ''no available backend found''
         else Inr leastLoadedIP)"

definition getOrAssignBackend :: "ProxyService \<Rightarrow> redis \<Rightarrow> int \<Rightarrow> string \<Rightarrow> string + string" where
  "getOrAssignBackend ps st now clientID =
     (case redis_get st now (''client:'' @ clientID) of
        Inr backendIP \<Rightarrow> Inr backendIP
      | Inl RedisNil \<Rightarrow>
          (case getLeastLoadedBackend ps st now of
             Inl err \<Rightarrow> Inl (''error getting least loaded backend: '' @ err)
           | Inr backendIP \<Rightarrow> Inr backendIP)
      | Inl err \<Rightarrow> Inl (''error getting backend: '' @ redis_err_msg err))"

definition getClientBackend :: "ProxyService \<Rightarrow> redis \<Rightarrow> int \<Rightarrow> string \<Rightarrow> string + string" where
  "getClientBackend ps st now clientID =
     (case redis_get st now (''client:'' @ clientID) of
        Inl err \<Rightarrow> Inl (''error getting client backend: '' @ redis_err_msg err)
      | Inr backendIP \<Rightarrow> Inr backendIP)"

text \<open>
  \<open>AddActiveRequestToBackend\<close>: a pipeline of SET and ZADD. Both commands are sent; the
  error of the pipeline is the error of the first command that failed.
\<close>

definition AddActiveRequestToBackend ::
  "ProxyService \<Rightarrow> redis \<Rightarrow> int \<Rightarrow> string \<Rightarrow> string \<Rightarrow> redis_err option \<times> redis" where
  "AddActiveRequestToBackend ps st now backendIP clientID =
     (let (e1, st1) = redis_set st now (''client:'' @ clientID) backendIP (MappingTTL ps);
          (e2, st2) = redis_zadd st1 now (''backend:'' @ backendIP) now clientID
      in (case e1 of Some err \<Rightarrow> (Some err, st2) | None \<Rightarrow> (e2, st2)))"

definition RemoveActiveRequestFromBackend ::
  "ProxyService \<Rightarrow> redis \<Rightarrow> int \<Rightarrow> string \<Rightarrow> string \<Rightarrow> redis_err option \<times> redis" where
  "RemoveActiveRequestFromBackend ps st now backendIP clientID =
     redis_zrem st now (''backend:'' @ backendIP) clientID"

text \<open>
  The active set of a backend as the store holds it, the liveness window of the count
  query, and the live count of a backend read off the store.
\<close>

definition active_set :: "redis \<Rightarrow> string \<Rightarrow> zset" where
  "active_set st b = (case keyspace st (''backend:'' @ b) of Some (RZSet z) \<Rightarrow> z | _ \<Rightarrow> [])"

definition live :: "ProxyService \<Rightarrow> int \<Rightarrow> string \<times> int \<Rightarrow> bool" where
  "live ps now = (\<lambda>p. now - MappingTTL ps \<le> snd p \<and> snd p \<le> now)"


definition live_member :: "ProxyService \<Rightarrow> redis \<Rightarrow> int \<Rightarrow> string \<Rightarrow> string \<Rightarrow> bool" where
  "live_member ps st now clientID b =
     list_ex (\<lambda>p. fst p = clientID \<and> live ps now p) (active_set st b)"

section \<open>Requests, responses and the world a handler acts on\<close>

datatype json =
    JNull | JBool bool | JNum int | JFloat string | JStr string
  | JArr "json list" | JObj "(string \<times> json) list"

record AgentRequest =
  ChannelName :: string
  UID :: int

text \<open>
  The request body as the JSON decoder reads it into \<open>AgentRequest\<close>: not a JSON object
  at all, or an object, given by the member bound to each field of the struct (\<open>None\<close>
  when the object has no such member).
\<close>

record body_fields =
  channel_name_member :: "json option"
  uid_member :: "json option"

datatype req_body = NotAnObject | Object body_fields

record request =
  req_method :: string
  req_path :: string
  hdr_origin :: string
  hdr_client_id :: string
  req_body :: req_body

text \<open>
  What the upstream backend answers: no answer (a transport error or the timeout), or a
  status code with a body that cannot be read, is not JSON, or is a JSON value. (The empty
  body of a response that carries none is not JSON.)
\<close>

datatype upstream_body = ReadErr string | Invalid string | Valid json

datatype upstream_result = TransportErr string | Response int upstream_body

text \<open>
  The surroundings of one request: the identifier \<open>uuid.New\<close> returns, the error of
  building a request for a URL, the answer of the backend at a URL, the answer of a health
  probe, the clock when the backend is looked up and when the store is updated (before and
  after the upstream call), and the formatted time of the timestamp header.
\<close>

record env =
  new_uuid :: string
  url_error :: "string \<rightharpoonup> string"
  upstream :: "string \<Rightarrow> AgentRequest \<Rightarrow> upstream_result"
  probe :: "string \<Rightarrow> string + string"
  t_lookup :: int
  t_record :: int
  timestamp :: string

text \<open>
  The gin context with the world the handler acts on: the response being built (status,
  header map of the writer, body if one was written), whether the chain was aborted,
  whether the handler panicked, the store, and the upstream requests sent so far.
\<close>

datatype resp_body = JsonBody "string \<rightharpoonup> json" | TextBody string

record ctx =
  status :: int
  headers :: "string \<rightharpoonup> string"
  rbody :: "resp_body option"
  aborted :: bool
  panicked :: bool
  db :: redis
  calls :: "(string \<times> AgentRequest) list"

definition new_ctx :: "redis \<Rightarrow> ctx" where
  "new_ctx st = \<lparr>status = 200, headers = Map.empty, rbody = None, aborted = False,
                 panicked = False, db = st, calls = []\<rparr>"

text \<open>\<open>c.Header\<close>: an empty value deletes the header.\<close>

definition Header :: "string \<Rightarrow> string \<Rightarrow> ctx \<Rightarrow> ctx" where
  "Header k v c =
     c\<lparr>headers := (if v = '''' then (headers c)(k := None) else (headers c)(k \<mapsto> v))\<rparr>"

text \<open>\<open>Header.Get\<close>: the empty string for a header that is not set.\<close>

definition header_get :: "ctx \<Rightarrow> string \<Rightarrow> string" where
  "header_get c k = (case headers c k of None \<Rightarrow> '''' | Some v \<Rightarrow> v)"

text \<open>\<open>c.JSON\<close>: the content type is set unless one is set already.\<close>

definition JSON :: "int \<Rightarrow> (string \<rightharpoonup> json) \<Rightarrow> ctx \<Rightarrow> ctx" where
  "JSON code obj c =
     c\<lparr>status := code, rbody := Some (JsonBody obj),
       headers := (case headers c ''Content-Type'' of
                     None \<Rightarrow> (headers c)(''Content-Type'' \<mapsto> ''application/json; charset=utf-8'')
                   | Some v \<Rightarrow> headers c)\<rparr>"

definition Abort :: "ctx \<Rightarrow> ctx" where
  "Abort c = c\<lparr>aborted := True\<rparr>"

definition AbortWithStatus :: "int \<Rightarrow> ctx \<Rightarrow> ctx" where
  "AbortWithStatus code c = c\<lparr>status := code, aborted := True\<rparr>"

section \<open>Request validation\<close>

datatype bind_err = DecodeErr | RequiredErr string

text \<open>
  Decoding a member into a string or an int field: an absent member and \<open>null\<close> leave the
  zero value; a value of another kind, or an integer outside 64 bits, is a decode error.
\<close>

fun decodeString :: "json option \<Rightarrow> string option" where
  "decodeString None = Some ''''"
| "decodeString (Some JNull) = Some ''''"
| "decodeString (Some (JStr s)) = Some s"
| "decodeString (Some v) = None"

fun decodeInt :: "json option \<Rightarrow> int option" where
  "decodeInt None = Some 0"
| "decodeInt (Some JNull) = Some 0"
| "decodeInt (Some (JNum n)) =
     (if - (2 ^ 63) \<le> n \<and> n < 2 ^ 63 then Some n else None)"
| "decodeInt (Some v) = None"

text \<open>
  \<open>ShouldBindJSON\<close> decodes the body and then checks the \<open>binding:"required"\<close> tags: a
  required field must differ from the zero value of its type.
\<close>

definition ShouldBindJSON :: "req_body \<Rightarrow> bind_err + AgentRequest" where
  "ShouldBindJSON b =
     (case b of
        NotAnObject \<Rightarrow> Inl DecodeErr
      | Object f \<Rightarrow>
          (case (decodeString (channel_name_member f), decodeInt (uid_member f)) of
             (Some cn, Some u) \<Rightarrow>
               if cn = '''' then Inl (RequiredErr ''ChannelName'')
               else if u = 0 then Inl (RequiredErr ''UID'')
               else Inr \<lparr>ChannelName = cn, UID = u\<rparr>
           | _ \<Rightarrow> Inl DecodeErr))"

definition Validate :: "AgentRequest \<Rightarrow> string option" where
  "Validate r = (if ChannelName r = '''' then Some ''channel_name is required'' else None)"

definition getClientID :: "env \<Rightarrow> request \<Rightarrow> string" where
  "getClientID ev rq = (if hdr_client_id rq = '''' then new_uuid ev else hdr_client_id rq)"

section \<open>Request handlers\<close>

text \<open>
  \<open>json.Unmarshal\<close> into a \<open>map[string]interface{}\<close>: an object gives the map of its
  members (the last of two members of one name wins), \<open>null\<close> leaves the map nil, any
  other value is an error.
\<close>

fun unmarshal_map :: "json \<Rightarrow> string + (string \<rightharpoonup> json) option" where
  "unmarshal_map (JObj kvs) = Inr (Some (map_of (rev kvs)))"
| "unmarshal_map JNull = Inr None"
| "unmarshal_map v = Inl ''json: cannot unmarshal value into Go value of type map[string]interface {}''"

text \<open>
  \<open>HandleStart\<close>. The response is written before the mapping is recorded, and the error
  of recording is only logged. Writing to the nil map left by a \<open>null\<close> body panics.
\<close>

definition HandleStart :: "ProxyService \<Rightarrow> env \<Rightarrow> AgentRequest \<Rightarrow> string \<Rightarrow> ctx \<Rightarrow> ctx" where
  "HandleStart ps ev req clientID c =
     (case getOrAssignBackend ps (db c) (t_lookup ev) clientID of
        Inl err \<Rightarrow>
          JSON 500 [''error'' \<mapsto> JStr ''Error assigning backend'', ''details'' \<mapsto> JStr err] c
      | Inr backendIP \<Rightarrow>
          (let backendURL = ''http://'' @ backendIP @ '':8080/start_agent'' in
           case url_error ev backendURL of
             Some err \<Rightarrow>
               JSON 500 [''error'' \<mapsto> JStr ''Error creating request'', ''details'' \<mapsto> JStr err] c
           | None \<Rightarrow>
               (let c1 = c\<lparr>calls := calls c @ [(backendURL, req)]\<rparr> in
                case upstream ev backendURL req of
                  TransportErr err \<Rightarrow>
                    JSON 502 [''error'' \<mapsto> JStr ''Failed to reach backend service'',
                              ''details'' \<mapsto> JStr err] c1
                | Response code (ReadErr err) \<Rightarrow>
                    JSON 500 [''error'' \<mapsto> JStr ''Error reading response body'',
                              ''details'' \<mapsto> JStr err] c1
                | Response code (Invalid err) \<Rightarrow>
                    JSON 500 [''error'' \<mapsto> JStr ''Error parsing response body'',
                              ''details'' \<mapsto> JStr err] c1
                | Response code (Valid v) \<Rightarrow>
                    (case unmarshal_map v of
                       Inl err \<Rightarrow>
                         JSON 500 [''error'' \<mapsto> JStr ''Error parsing response body'',
                                   ''details'' \<mapsto> JStr err] c1
                     | Inr None \<Rightarrow> c1\<lparr>panicked := True\<rparr>
                     | Inr (Some responseData) \<Rightarrow>
                         (let c2 = JSON code (responseData(''clientID'' \<mapsto> JStr clientID)) c1 in
                          if 200 \<le> code \<and> code < 300
                          then c2\<lparr>db := snd (AddActiveRequestToBackend ps (db c2) (t_record ev)
                                                backendIP clientID)\<rparr>
                          else c2)))))"

definition HandleStop :: "ProxyService \<Rightarrow> env \<Rightarrow> AgentRequest \<Rightarrow> string \<Rightarrow> ctx \<Rightarrow> ctx" where
  "HandleStop ps ev req clientID c =
     (case getClientBackend ps (db c) (t_lookup ev) clientID of
        Inl err \<Rightarrow>
          JSON 500 [''error'' \<mapsto> JStr ''Error retrieving backend'', ''details'' \<mapsto> JStr err] c
      | Inr backendIP \<Rightarrow>
          (let backendURL = ''http://'' @ backendIP @ '':8080/stop_agent'' in
           case url_error ev backendURL of
             Some err \<Rightarrow>
               JSON 500 [''error'' \<mapsto> JStr ''Error creating request'', ''details'' \<mapsto> JStr err] c
           | None \<Rightarrow>
               (let c1 = c\<lparr>calls := calls c @ [(backendURL, req)]\<rparr> in
                case upstream ev backendURL req of
                  TransportErr err \<Rightarrow>
                    JSON 502 [''error'' \<mapsto> JStr ''Failed to reach backend service'',
                              ''details'' \<mapsto> JStr err] c1
                | Response code (ReadErr err) \<Rightarrow>
                    JSON 500 [''error'' \<mapsto> JStr ''Error reading response body'',
                              ''details'' \<mapsto> JStr err] c1
                | Response code (Invalid err) \<Rightarrow>
                    JSON 500 [''error'' \<mapsto> JStr ''Error parsing response body'',
                              ''details'' \<mapsto> JStr err] c1
                | Response code (Valid v) \<Rightarrow>
                    (case unmarshal_map v of
                       Inl err \<Rightarrow>
                         JSON 500 [''error'' \<mapsto> JStr ''Error parsing response body'',
                                   ''details'' \<mapsto> JStr err] c1
                     | Inr None \<Rightarrow> c1\<lparr>panicked := True\<rparr>
                     | Inr (Some responseData) \<Rightarrow>
                         (let c2 = JSON code (responseData(''clientID'' \<mapsto> JStr clientID)) c1 in
                          if 200 \<le> code \<and> code < 300
                          then c2\<lparr>db := snd (RemoveActiveRequestFromBackend ps (db c2) (t_record ev)
                                                backendIP clientID)\<rparr>
                          else c2)))))"

definition validateAndHandleStart :: "ProxyService \<Rightarrow> env \<Rightarrow> request \<Rightarrow> ctx \<Rightarrow> ctx" where
  "validateAndHandleStart ps ev rq c =
     (case ShouldBindJSON (req_body rq) of
        Inl err \<Rightarrow> JSON 400 [''error'' \<mapsto> JStr ''Invalid request body''] c
      | Inr req \<Rightarrow>
          (case Validate req of
             Some err \<Rightarrow> JSON 400 [''error'' \<mapsto> JStr err] c
           | None \<Rightarrow> HandleStart ps ev req (getClientID ev rq) c))"

definition validateAndHandleStop :: "ProxyService \<Rightarrow> env \<Rightarrow> request \<Rightarrow> ctx \<Rightarrow> ctx" where
  "validateAndHandleStop ps ev rq c =
     (case ShouldBindJSON (req_body rq) of
        Inl err \<Rightarrow> JSON 400 [''error'' \<mapsto> JStr ''Invalid request body''] c
      | Inr req \<Rightarrow>
          (case Validate req of
             Some err \<Rightarrow> JSON 400 [''error'' \<mapsto> JStr err] c
           | None \<Rightarrow> HandleStop ps ev req (getClientID ev rq) c))"

fun healthResults :: "env \<Rightarrow> string list \<Rightarrow> (string \<rightharpoonup> json) \<Rightarrow> (string \<rightharpoonup> json)" where
  "healthResults ev [] results = results"
| "healthResults ev (backendIP # rest) results =
     healthResults ev rest
       (results(backendIP \<mapsto>
          (case probe ev (''http://'' @ backendIP @ '':8080/start_agent'') of
             Inl err \<Rightarrow> JStr (''Error: '' @ err)
           | Inr st \<Rightarrow> JStr (''Status: '' @ st))))"

definition healthCheck :: "ProxyService \<Rightarrow> env \<Rightarrow> ctx \<Rightarrow> ctx" where
  "healthCheck ps ev c = JSON 200 (healthResults ev (BackendIPs ps) Map.empty) c"

definition Ping :: "ctx \<Rightarrow> ctx" where
  "Ping c = JSON 200 [''message'' \<mapsto> JStr ''pong''] c"

section \<open>Header middleware\<close>

text \<open>\<open>strings.Split\<close> at a comma: the pieces between the commas, empty pieces kept.\<close>

fun Split :: "string \<Rightarrow> string list" where
  "Split [] = [[]]"
| "Split (x # xs) =
     (if x = CHR '','' then [] # Split xs
      else (case Split xs of [] \<Rightarrow> [[x]] | w # ws \<Rightarrow> (x # w) # ws))"

fun Join :: "string list \<Rightarrow> string" where
  "Join [] = []"
| "Join [w] = w"
| "Join (w # ws) = w @ CHR '','' # Join ws"

definition isOriginAllowed :: "ProxyService \<Rightarrow> string \<Rightarrow> bool" where
  "isOriginAllowed ps origin =
     (if AllowOrigin ps = ''*'' then True
      else list_ex (\<lambda>allowed. origin = allowed) (Split (AllowOrigin ps)))"

definition cors_headers :: "string \<Rightarrow> ctx \<Rightarrow> ctx" where
  "cors_headers origin c =
     Header ''Access-Control-Allow-Credentials'' ''true''
       (Header ''Access-Control-Allow-Headers''
          ''Origin, Content-Type, X-CSRF-Token, X-Requested-With, Accept, Accept-Version, Content-Length, Content-MD5, Date, X-Api-Version, X-Client-Id, Authorization''
          (Header ''Access-Control-Allow-Methods'' ''GET, POST, DELETE, PATCH, OPTIONS''
             (Header ''Access-Control-Allow-Origin'' origin c)))"

text \<open>
  \<open>CORShttpHeaders\<close>, with the rest of the chain (what \<open>c.Next\<close> runs) as \<open>next\<close>.
\<close>

definition CORShttpHeaders :: "ProxyService \<Rightarrow> request \<Rightarrow> (ctx \<Rightarrow> ctx) \<Rightarrow> ctx \<Rightarrow> ctx" where
  "CORShttpHeaders ps rq next c =
     (let origin = hdr_origin rq in
      if \<not> isOriginAllowed ps origin
      then Abort (JSON 403 [''error'' \<mapsto> JStr ''Origin not allowed'']
                    (Header ''Content-Type'' ''application/json'' c))
      else (let c1 = cors_headers origin c in
            if req_method rq = ''OPTIONS'' then AbortWithStatus 204 c1 else next c1))"

definition NoCache :: "ctx \<Rightarrow> ctx" where
  "NoCache c =
     Header ''Pragma'' ''no-cache''
       (Header ''Expires'' ''-1''
          (Header ''Cache-Control'' ''private, no-cache, no-store, must-revalidate'' c))"

text \<open>\<open>Timestamp\<close> runs the rest of the chain first; a panic passes through it.\<close>

definition Timestamp :: "env \<Rightarrow> (ctx \<Rightarrow> ctx) \<Rightarrow> ctx \<Rightarrow> ctx" where
  "Timestamp ev next c =
     (let c1 = next c in
      if panicked c1 then c1 else c1\<lparr>headers := (headers c1)(''X-Timestamp'' \<mapsto> timestamp ev)\<rparr>)"

section \<open>The router\<close>

text \<open>
  The gin engine as far as the program uses it. \<open>Use\<close> appends a middleware to the
  handlers of the root group. Registering a route fixes its chain: the handlers of the
  group at that moment, then the route's own handler. A request with no route runs the
  handlers of the root group and is answered 404.
\<close>

datatype handler =
    Logger | Recovery | CORS | NoCacheH | TimestampH
  | StartAgent | StopAgent | Health | PingH

record engine =
  Handlers :: "handler list"
  routes :: "(string \<times> string \<times> handler list) list"

definition Default :: engine where
  "Default = \<lparr>Handlers = [Logger, Recovery], routes = []\<rparr>"

definition Use :: "handler \<Rightarrow> engine \<Rightarrow> engine" where
  "Use h e = e\<lparr>Handlers := Handlers e @ [h]\<rparr>"

definition addRoute :: "string \<Rightarrow> string \<Rightarrow> handler \<Rightarrow> engine \<Rightarrow> engine" where
  "addRoute m p h e = e\<lparr>routes := routes e @ [(m, p, Handlers e @ [h])]\<rparr>"

definition RegisterRoutes :: "engine \<Rightarrow> engine" where
  "RegisterRoutes router =
     addRoute ''GET'' ''/health'' Health
       (addRoute ''POST'' ''/stop_agent'' StopAgent
          (addRoute ''POST'' ''/start_agent'' StartAgent
             (Use TimestampH (Use NoCacheH (Use CORS router)))))"

definition setupServer :: engine where
  "setupServer = addRoute ''GET'' ''/ping'' PingH (RegisterRoutes Default)"

text \<open>
  Running a chain: a handler runs unless the chain was aborted; a middleware that calls
  \<open>c.Next\<close> gets the rest of the chain; \<open>Recovery\<close> answers a panic with 500.
\<close>

fun run_chain :: "ProxyService \<Rightarrow> env \<Rightarrow> request \<Rightarrow> handler list \<Rightarrow> ctx \<Rightarrow> ctx" where
  "run_chain ps ev rq [] c = c"
| "run_chain ps ev rq (h # hs) c =
     (if aborted c \<or> panicked c then c
      else (case h of
              Logger \<Rightarrow> run_chain ps ev rq hs c
            | Recovery \<Rightarrow>
                (let c1 = run_chain ps ev rq hs c in
                 if panicked c1 then AbortWithStatus 500 (c1\<lparr>panicked := False\<rparr>) else c1)
            | CORS \<Rightarrow> CORShttpHeaders ps rq (\<lambda>c1. run_chain ps ev rq hs c1) c
            | NoCacheH \<Rightarrow> run_chain ps ev rq hs (NoCache c)
            | TimestampH \<Rightarrow> Timestamp ev (\<lambda>c1. run_chain ps ev rq hs c1) c
            | StartAgent \<Rightarrow> run_chain ps ev rq hs (validateAndHandleStart ps ev rq c)
            | StopAgent \<Rightarrow> run_chain ps ev rq hs (validateAndHandleStop ps ev rq c)
            | Health \<Rightarrow> run_chain ps ev rq hs (healthCheck ps ev c)
            | PingH \<Rightarrow> run_chain ps ev rq hs (Ping c)))"

fun find_route :: "string \<Rightarrow> string \<Rightarrow> (string \<times> string \<times> handler list) list \<Rightarrow> handler list option" where
  "find_route m p [] = None"
| "find_route m p ((m', p', chain) # rest) =
     (if m = m' \<and> p = p' then Some chain else find_route m p rest)"

definition ServeHTTP :: "ProxyService \<Rightarrow> env \<Rightarrow> engine \<Rightarrow> request \<Rightarrow> redis \<Rightarrow> ctx" where
  "ServeHTTP ps ev e rq st =
     (case find_route (req_method rq) (req_path rq) (routes e) of
        Some chain \<Rightarrow> run_chain ps ev rq chain (new_ctx st)
      | None \<Rightarrow>
          (let c1 = run_chain ps ev rq (Handlers e) ((new_ctx st)\<lparr>status := 404\<rparr>) in
           if aborted c1 then c1 else c1\<lparr>rbody := Some (TextBody ''404 page not found'')\<rparr>))"

section \<open>Sequences of starts and stops\<close>

definition empty_store :: redis where
  "empty_store = \<lparr>keyspace = Map.empty, faulty = Map.empty\<rparr>"

definition forward_mapping :: "redis \<Rightarrow> string \<Rightarrow> rvalue option" where
  "forward_mapping st clientID = keyspace st (''client:'' @ clientID)"

text \<open>
  The states the router reaches from the empty store by start and stop requests handled one
  after the other, whatever the backends answer, with the clock of each state. The clock
  never runs backwards, and a handler looks the client up before it updates the store.
\<close>

inductive reachable :: "ProxyService \<Rightarrow> redis \<Rightarrow> int \<Rightarrow> bool" for ps :: ProxyService where
  init: "reachable ps empty_store t"
| tick: "reachable ps st t \<Longrightarrow> t \<le> t' \<Longrightarrow> reachable ps st t'"
| start: "reachable ps st t \<Longrightarrow> t \<le> t_lookup ev \<Longrightarrow> t_lookup ev \<le> t_record ev \<Longrightarrow>
          reachable ps (db (HandleStart ps ev req clientID (new_ctx st))) (t_record ev)"
| stop: "reachable ps st t \<Longrightarrow> t \<le> t_lookup ev \<Longrightarrow> t_lookup ev \<le> t_record ev \<Longrightarrow>
         reachable ps (db (HandleStop ps ev req clientID (new_ctx st))) (t_record ev)"

text \<open>
  What holds of every such state: no command fails on it (no key is faulty, the keys of
  clients hold strings and the keys of backends hold sorted sets), and an entry of an active
  set that is not yet older than the time to live has the forward mapping of its client
  pointing at that backend, for at least as long as the entry is live.
\<close>

definition well_typed :: "redis \<Rightarrow> bool" where
  "well_typed st \<longleftrightarrow>
     faulty st = Map.empty \<and>
     (\<forall>c z. forward_mapping st c \<noteq> Some (RZSet z)) \<and>
     (\<forall>b v e. keyspace st (''backend:'' @ b) \<noteq> Some (RString v e))"

definition mapping_covers :: "ProxyService \<Rightarrow> redis \<Rightarrow> int \<Rightarrow> bool" where
  "mapping_covers ps st now \<longleftrightarrow>
     (\<forall>b c s. (c, s) \<in> set (active_set st b) \<longrightarrow>
        s \<le> now \<and>
        (now \<le> s + MappingTTL ps \<longrightarrow>
           (\<exists>e. forward_mapping st c = Some (RString b e) \<and>
                (case e of None \<Rightarrow> True | Some x \<Rightarrow> s + MappingTTL ps \<le> x))))"

section \<open>Example configurations and store states\<close>

definition ps_two :: ProxyService where
  "ps_two = \<lparr>BackendIPs = [''10.0.0.1'', ''10.0.0.2''], MaxRequestsPerBackend = 2,
             MappingTTL = 3600000, AllowOrigin = ''*''\<rparr>"




definition req_c1 :: AgentRequest where
  "req_c1 = \<lparr>ChannelName = ''c1'', UID = 7\<rparr>"

definition ev_ok :: env where
  "ev_ok = \<lparr>new_uuid = ''id-1'', url_error = Map.empty,
            upstream = (\<lambda>url req. Response 200 (Valid (JObj [(''status'', JStr ''ok'')]))),
            probe = (\<lambda>url. Inr ''200 OK''),
            t_lookup = 1000, t_record = 1500, timestamp = ''2025-02-01T00:00:00Z''\<rparr>"

definition ev_later :: env where
  "ev_later = ev_ok\<lparr>t_lookup := 2000, t_record := 2500\<rparr>"

definition ev_garbled :: env where
  "ev_garbled = ev_ok\<lparr>upstream := (\<lambda>url req. Response 200 (Invalid ''unexpected end of JSON input''))\<rparr>"

definition ev_down :: env where
  "ev_down = ev_ok\<lparr>upstream := (\<lambda>url req. TransportErr ''context deadline exceeded'')\<rparr>"

definition rq_start :: request where
  "rq_start = \<lparr>req_method = ''POST'', req_path = ''/start_agent'', hdr_origin = ''https://ok.example'',
               hdr_client_id = '''',
               req_body = Object \<lparr>channel_name_member = Some (JStr ''c1''),
                                   uid_member = Some (JNum 7)\<rparr>\<rparr>"


definition rq_stop :: request where
  "rq_stop = \<lparr>req_method = ''POST'', req_path = ''/stop_agent'', hdr_origin = ''https://ok.example'',
              hdr_client_id = ''id-9'',
              req_body = Object \<lparr>channel_name_member = Some (JStr ''c1''),
                                  uid_member = Some (JNum 7)\<rparr>\<rparr>"

definition rq_no_uid :: request where
  "rq_no_uid = \<lparr>req_method = ''POST'', req_path = ''/start_agent'', hdr_origin = ''https://ok.example'',
                hdr_client_id = '''',
                req_body = Object \<lparr>channel_name_member = Some (JStr ''c1''),
                                    uid_member = None\<rparr>\<rparr>"

definition ps_listed :: ProxyService where
  "ps_listed = \<lparr>BackendIPs = [''10.0.0.1'', ''10.0.0.2''], MaxRequestsPerBackend = 2,
                MappingTTL = 3600000, AllowOrigin = ''https://ok.example,https://app.example''\<rparr>"

definition rq_evil :: request where
  "rq_evil = rq_start\<lparr>hdr_origin := ''https://evil.example''\<rparr>"

definition rq_preflight :: request where
  "rq_preflight = rq_start\<lparr>req_method := ''OPTIONS'', hdr_origin := ''https://app.example'',
                            req_body := NotAnObject\<rparr>"



definition ev_stop :: env where
  "ev_stop = ev_ok\<lparr>t_lookup := 3000, t_record := 3500\<rparr>"


section \<open>Properties\<close>

subsection \<open>The store commands\<close>

lemma client_key_neq_backend_key: "''client:'' @ c \<noteq> ''backend:'' @ b"
  by simp

lemma faulty_redis_set: "faulty (snd (redis_set st t k v ttl)) = faulty st"
  by (simp add: redis_set_def split: option.splits)

lemma faulty_redis_zadd: "faulty (snd (redis_zadd st t k s m)) = faulty st"
  by (simp add: redis_zadd_def split: option.splits rvalue.splits)

lemma faulty_redis_zrem: "faulty (snd (redis_zrem st t k m)) = faulty st"
  by (simp add: redis_zrem_def split: option.splits rvalue.splits)

lemma fst_redis_set: "fst (redis_set st t k v ttl) = None \<longleftrightarrow> faulty st k = None"
  by (simp add: redis_set_def split: option.splits)

lemma keyspace_redis_set:
  "faulty st k = None \<Longrightarrow>
   keyspace (snd (redis_set st t k v ttl)) =
     (keyspace st)(k \<mapsto> RString v (if 0 < ttl then Some (t + ttl) else None))"
  by (simp add: redis_set_def)

lemma keyspace_redis_set_faulty:
  "faulty st k = Some msg \<Longrightarrow> snd (redis_set st t k v ttl) = st"
  by (simp add: redis_set_def)

lemma keyspace_redis_zadd_other:
  "k' \<noteq> k \<Longrightarrow> keyspace (snd (redis_zadd st t k s m)) k' = keyspace st k'"
  by (simp add: redis_zadd_def split: option.splits rvalue.splits)

lemma keyspace_redis_zrem_other:
  "k' \<noteq> k \<Longrightarrow> keyspace (snd (redis_zrem st t k m)) k' = keyspace st k'"
  by (simp add: redis_zrem_def split: option.splits rvalue.splits)

lemma visible_cong:
  "keyspace st' k = keyspace st k \<Longrightarrow> visible st' t k = visible st t k"
  by (simp add: visible_def)

lemma redis_get_cong:
  assumes "keyspace st' k = keyspace st k" and "faulty st' k = faulty st k"
  shows "redis_get st' t k = redis_get st t k"
  unfolding redis_get_def visible_cong [OF assms(1)] assms(2) by (rule refl)

lemma AddActive_fst:
  "fst (AddActiveRequestToBackend ps st t b c) = None \<longleftrightarrow>
     fst (redis_set st t (''client:'' @ c) b (MappingTTL ps)) = None \<and>
     fst (redis_zadd (snd (redis_set st t (''client:'' @ c) b (MappingTTL ps))) t
            (''backend:'' @ b) t c) = None"
  by (simp add: AddActiveRequestToBackend_def split: prod.splits option.splits)

lemma AddActive_snd:
  "snd (AddActiveRequestToBackend ps st t b c) =
     snd (redis_zadd (snd (redis_set st t (''client:'' @ c) b (MappingTTL ps))) t
            (''backend:'' @ b) t c)"
  by (simp add: AddActiveRequestToBackend_def split: prod.splits option.splits)

lemma redis_get_string:
  "faulty st k = None \<Longrightarrow> keyspace st k = Some (RString v e) \<Longrightarrow>
   (case e of None \<Rightarrow> True | Some x \<Rightarrow> t \<le> x) \<Longrightarrow> redis_get st t k = Inr v"
  by (simp add: redis_get_def visible_def split: option.splits)

lemma AddActive_mapping:
  assumes ok: "fst (AddActiveRequestToBackend ps st t b c) = None"
      and within: "0 < MappingTTL ps \<longrightarrow> t' \<le> t + MappingTTL ps"
  shows "redis_get (snd (AddActiveRequestToBackend ps st t b c)) t' (''client:'' @ c) = Inr b"
proof -
  let ?k = "''client:'' @ c"
  let ?st1 = "snd (redis_set st t ?k b (MappingTTL ps))"
  let ?st2 = "snd (AddActiveRequestToBackend ps st t b c)"
  have f: "faulty st ?k = None" using ok by (simp only: AddActive_fst fst_redis_set)
  have k1: "keyspace ?st1 ?k =
              Some (RString b (if 0 < MappingTTL ps then Some (t + MappingTTL ps) else None))"
    by (simp only: keyspace_redis_set [OF f] fun_upd_same)
  have k2: "keyspace ?st2 ?k = keyspace ?st1 ?k"
    by (simp only: AddActive_snd keyspace_redis_zadd_other [OF client_key_neq_backend_key])
  have f2: "faulty ?st2 ?k = None"
    using f by (simp only: AddActive_snd faulty_redis_zadd faulty_redis_set)
  show ?thesis
    by (rule redis_get_string [OF f2]) (use k1 k2 within in \<open>auto split: if_splits\<close>)
qed

lemma redis_zadd_ok:
  "fst (redis_zadd st t k s m) = None \<Longrightarrow>
   keyspace (snd (redis_zadd st t k s m)) k =
     Some (RZSet (zset_put m s (case visible st t k of Some (RZSet z) \<Rightarrow> z | _ \<Rightarrow> [])))"
  by (simp add: redis_zadd_def zset_put_def split: option.splits rvalue.splits)

subsection \<open>Adding to and removing from an active set\<close>

lemma keyspace_redis_set_other:
  "k' \<noteq> k \<Longrightarrow> keyspace (snd (redis_set st t k v ttl)) k' = keyspace st k'"
  by (simp add: redis_set_def split: option.splits)

lemma active_set_cong:
  "keyspace st' (''backend:'' @ b) = keyspace st (''backend:'' @ b) \<Longrightarrow>
   active_set st' b = active_set st b"
  by (simp add: active_set_def)





lemma zset_del_member: "\<not> list_ex (\<lambda>p. fst p = m) (zset_del m z)"
  by (induction z) (auto simp: zset_del_def)

lemma redis_zadd_active:
  assumes "fst (redis_zadd st t (''backend:'' @ b) s m) = None"
  shows "keyspace (snd (redis_zadd st t (''backend:'' @ b) s m)) (''backend:'' @ b) =
           Some (RZSet (zset_put m s (active_set st b)))"
proof -
  have "(case visible st t (''backend:'' @ b) of Some (RZSet z) \<Rightarrow> z | _ \<Rightarrow> []) = active_set st b"
    using assms
    by (auto simp: redis_zadd_def visible_def active_set_def
        split: option.splits rvalue.splits if_splits)
  with redis_zadd_ok [OF assms] show ?thesis by simp
qed

lemma redis_zrem_active:
  "fst (redis_zrem st t (''backend:'' @ b) m) = None \<Longrightarrow>
   active_set (snd (redis_zrem st t (''backend:'' @ b) m)) b = zset_del m (active_set st b)"
  by (auto simp: redis_zrem_def visible_def active_set_def zset_del_def
      split: option.splits rvalue.splits if_splits)


lemma redis_zrem_fst_idem:
  "fst (redis_zrem st t k m) = None \<Longrightarrow> faulty st k = None"
  by (simp add: redis_zrem_def split: option.splits)

lemma AddActive_active_set:
  assumes "fst (AddActiveRequestToBackend ps st t b c) = None"
  shows "keyspace (snd (AddActiveRequestToBackend ps st t b c)) (''backend:'' @ b) =
           Some (RZSet (zset_put c t (active_set st b)))"
proof -
  let ?st1 = "snd (redis_set st t (''client:'' @ c) b (MappingTTL ps))"
  have z: "fst (redis_zadd ?st1 t (''backend:'' @ b) t c) = None"
    using assms by (simp only: AddActive_fst)
  have "keyspace ?st1 (''backend:'' @ b) = keyspace st (''backend:'' @ b)"
    by (rule keyspace_redis_set_other) simp
  then have "active_set ?st1 b = active_set st b" by (rule active_set_cong)
  with redis_zadd_active [OF z] show ?thesis by (simp add: AddActive_snd)
qed

lemma AddActive_keyspace_other:
  "k \<noteq> ''client:'' @ c \<Longrightarrow> k \<noteq> ''backend:'' @ b \<Longrightarrow>
   keyspace (snd (AddActiveRequestToBackend ps st t b c)) k = keyspace st k"
  by (simp add: AddActive_snd keyspace_redis_zadd_other keyspace_redis_set_other)

lemma AddActive_faulty: "faulty (snd (AddActiveRequestToBackend ps st t b c)) = faulty st"
  by (simp add: AddActive_snd faulty_redis_zadd faulty_redis_set)

lemma AddActive_client_key:
  assumes "fst (AddActiveRequestToBackend ps st t b c) = None"
  shows "keyspace (snd (AddActiveRequestToBackend ps st t b c)) (''client:'' @ c) =
           Some (RString b (if 0 < MappingTTL ps then Some (t + MappingTTL ps) else None))"
proof -
  have f: "faulty st (''client:'' @ c) = None" using assms by (simp only: AddActive_fst fst_redis_set)
  show ?thesis
    by (simp only: AddActive_snd keyspace_redis_zadd_other [OF client_key_neq_backend_key]
          keyspace_redis_set [OF f] fun_upd_same)
qed


subsection \<open>The branches of the start and stop handlers\<close>

lemma db_JSON: "db (JSON code obj c) = db c"
  by (simp add: JSON_def)

lemma calls_JSON: "calls (JSON code obj c) = calls c"
  by (simp add: JSON_def)

lemma status_JSON: "status (JSON code obj c) = code"
  by (simp add: JSON_def)

lemma rbody_JSON: "rbody (JSON code obj c) = Some (JsonBody obj)"
  by (simp add: JSON_def)

lemma HandleStart_assign_err:
  "getOrAssignBackend ps (db c) (t_lookup ev) clientID = Inl err \<Longrightarrow>
   HandleStart ps ev req clientID c =
     JSON 500 [''error'' \<mapsto> JStr ''Error assigning backend'', ''details'' \<mapsto> JStr err] c"
  by (simp add: HandleStart_def)

lemma HandleStart_url_err:
  "getOrAssignBackend ps (db c) (t_lookup ev) clientID = Inr b \<Longrightarrow>
   url_error ev (''http://'' @ b @ '':8080/start_agent'') = Some err \<Longrightarrow>
   HandleStart ps ev req clientID c =
     JSON 500 [''error'' \<mapsto> JStr ''Error creating request'', ''details'' \<mapsto> JStr err] c"
  by (simp add: HandleStart_def)

lemma HandleStart_transport:
  "getOrAssignBackend ps (db c) (t_lookup ev) clientID = Inr b \<Longrightarrow>
   url_error ev (''http://'' @ b @ '':8080/start_agent'') = None \<Longrightarrow>
   upstream ev (''http://'' @ b @ '':8080/start_agent'') req = TransportErr err \<Longrightarrow>
   HandleStart ps ev req clientID c =
     JSON 502 [''error'' \<mapsto> JStr ''Failed to reach backend service'', ''details'' \<mapsto> JStr err]
       (c\<lparr>calls := calls c @ [(''http://'' @ b @ '':8080/start_agent'', req)]\<rparr>)"
  by (simp add: HandleStart_def)

lemma HandleStart_unread:
  "getOrAssignBackend ps (db c) (t_lookup ev) clientID = Inr b \<Longrightarrow>
   url_error ev (''http://'' @ b @ '':8080/start_agent'') = None \<Longrightarrow>
   upstream ev (''http://'' @ b @ '':8080/start_agent'') req = Response code (ReadErr err) \<Longrightarrow>
   HandleStart ps ev req clientID c =
     JSON 500 [''error'' \<mapsto> JStr ''Error reading response body'', ''details'' \<mapsto> JStr err]
       (c\<lparr>calls := calls c @ [(''http://'' @ b @ '':8080/start_agent'', req)]\<rparr>)"
  by (simp add: HandleStart_def)

lemma HandleStart_invalid:
  "getOrAssignBackend ps (db c) (t_lookup ev) clientID = Inr b \<Longrightarrow>
   url_error ev (''http://'' @ b @ '':8080/start_agent'') = None \<Longrightarrow>
   upstream ev (''http://'' @ b @ '':8080/start_agent'') req = Response code (Invalid err) \<Longrightarrow>
   HandleStart ps ev req clientID c =
     JSON 500 [''error'' \<mapsto> JStr ''Error parsing response body'', ''details'' \<mapsto> JStr err]
       (c\<lparr>calls := calls c @ [(''http://'' @ b @ '':8080/start_agent'', req)]\<rparr>)"
  by (simp add: HandleStart_def)

lemma HandleStart_not_object:
  "getOrAssignBackend ps (db c) (t_lookup ev) clientID = Inr b \<Longrightarrow>
   url_error ev (''http://'' @ b @ '':8080/start_agent'') = None \<Longrightarrow>
   upstream ev (''http://'' @ b @ '':8080/start_agent'') req = Response code (Valid v) \<Longrightarrow>
   unmarshal_map v = Inl err \<Longrightarrow>
   HandleStart ps ev req clientID c =
     JSON 500 [''error'' \<mapsto> JStr ''Error parsing response body'', ''details'' \<mapsto> JStr err]
       (c\<lparr>calls := calls c @ [(''http://'' @ b @ '':8080/start_agent'', req)]\<rparr>)"
  by (simp add: HandleStart_def)

lemma HandleStart_null:
  "getOrAssignBackend ps (db c) (t_lookup ev) clientID = Inr b \<Longrightarrow>
   url_error ev (''http://'' @ b @ '':8080/start_agent'') = None \<Longrightarrow>
   upstream ev (''http://'' @ b @ '':8080/start_agent'') req = Response code (Valid v) \<Longrightarrow>
   unmarshal_map v = Inr None \<Longrightarrow>
   HandleStart ps ev req clientID c =
     c\<lparr>calls := calls c @ [(''http://'' @ b @ '':8080/start_agent'', req)], panicked := True\<rparr>"
  by (simp add: HandleStart_def)

lemma HandleStart_object:
  "getOrAssignBackend ps (db c) (t_lookup ev) clientID = Inr b \<Longrightarrow>
   url_error ev (''http://'' @ b @ '':8080/start_agent'') = None \<Longrightarrow>
   upstream ev (''http://'' @ b @ '':8080/start_agent'') req = Response code (Valid v) \<Longrightarrow>
   unmarshal_map v = Inr (Some obj) \<Longrightarrow>
   HandleStart ps ev req clientID c =
     (if 200 \<le> code \<and> code < 300
      then (JSON code (obj(''clientID'' \<mapsto> JStr clientID))
              (c\<lparr>calls := calls c @ [(''http://'' @ b @ '':8080/start_agent'', req)]\<rparr>))
           \<lparr>db := snd (AddActiveRequestToBackend ps (db c) (t_record ev) b clientID)\<rparr>
      else JSON code (obj(''clientID'' \<mapsto> JStr clientID))
             (c\<lparr>calls := calls c @ [(''http://'' @ b @ '':8080/start_agent'', req)]\<rparr>))"
  by (simp add: HandleStart_def Let_def db_JSON)

lemma HandleStart_cases:
  obtains
    (assign_err) err where
      "getOrAssignBackend ps (db c) (t_lookup ev) clientID = Inl err"
      "HandleStart ps ev req clientID c =
         JSON 500 [''error'' \<mapsto> JStr ''Error assigning backend'', ''details'' \<mapsto> JStr err] c"
  | (url_err) b err where
      "getOrAssignBackend ps (db c) (t_lookup ev) clientID = Inr b"
      "url_error ev (''http://'' @ b @ '':8080/start_agent'') = Some err"
      "HandleStart ps ev req clientID c =
         JSON 500 [''error'' \<mapsto> JStr ''Error creating request'', ''details'' \<mapsto> JStr err] c"
  | (failed) b code msg where
      "getOrAssignBackend ps (db c) (t_lookup ev) clientID = Inr b"
      "url_error ev (''http://'' @ b @ '':8080/start_agent'') = None"
      "\<forall>k obj. upstream ev (''http://'' @ b @ '':8080/start_agent'') req \<noteq> Response k (Valid (JObj obj))"
      "upstream ev (''http://'' @ b @ '':8080/start_agent'') req \<noteq> Response code (Valid JNull)"
      "HandleStart ps ev req clientID c =
         JSON code msg (c\<lparr>calls := calls c @ [(''http://'' @ b @ '':8080/start_agent'', req)]\<rparr>)"
      "code = 500 \<or> code = 502"
  | (null) b code where
      "getOrAssignBackend ps (db c) (t_lookup ev) clientID = Inr b"
      "url_error ev (''http://'' @ b @ '':8080/start_agent'') = None"
      "upstream ev (''http://'' @ b @ '':8080/start_agent'') req = Response code (Valid JNull)"
      "HandleStart ps ev req clientID c =
         c\<lparr>calls := calls c @ [(''http://'' @ b @ '':8080/start_agent'', req)], panicked := True\<rparr>"
  | (object) b code kvs where
      "getOrAssignBackend ps (db c) (t_lookup ev) clientID = Inr b"
      "url_error ev (''http://'' @ b @ '':8080/start_agent'') = None"
      "upstream ev (''http://'' @ b @ '':8080/start_agent'') req = Response code (Valid (JObj kvs))"
      "HandleStart ps ev req clientID c =
         (if 200 \<le> code \<and> code < 300
          then (JSON code ((map_of (rev kvs))(''clientID'' \<mapsto> JStr clientID))
                  (c\<lparr>calls := calls c @ [(''http://'' @ b @ '':8080/start_agent'', req)]\<rparr>))
               \<lparr>db := snd (AddActiveRequestToBackend ps (db c) (t_record ev) b clientID)\<rparr>
          else JSON code ((map_of (rev kvs))(''clientID'' \<mapsto> JStr clientID))
                 (c\<lparr>calls := calls c @ [(''http://'' @ b @ '':8080/start_agent'', req)]\<rparr>))"
proof (cases "getOrAssignBackend ps (db c) (t_lookup ev) clientID")
  case (Inl err)
  then show ?thesis using assign_err HandleStart_assign_err by blast
next
  case (Inr b)
  let ?url = "''http://'' @ b @ '':8080/start_agent''"
  show ?thesis
  proof (cases "url_error ev ?url")
    case (Some err)
    then show ?thesis using Inr url_err HandleStart_url_err by blast
  next
    case None
    show ?thesis
    proof (cases "upstream ev ?url req")
      case (TransportErr err)
      then show ?thesis using failed [OF Inr None _ _ HandleStart_transport [OF Inr None TransportErr]] by simp
    next
      case (Response code body)
      show ?thesis
      proof (cases body)
        case (ReadErr err)
        then show ?thesis using Response failed [OF Inr None _ _ HandleStart_unread [OF Inr None]] by simp
      next
        case (Invalid err)
        then show ?thesis using Response failed [OF Inr None _ _ HandleStart_invalid [OF Inr None]] by simp
      next
        case (Valid v)
        show ?thesis
        proof (cases "unmarshal_map v")
          case (Inl err)
          then have "\<forall>obj. v \<noteq> JObj obj" "v \<noteq> JNull" by auto
          then show ?thesis
            using Response Valid Inl failed [OF Inr None _ _ HandleStart_not_object [OF Inr None]] by simp
        next
          case r: (Inr m)
          show ?thesis
          proof (cases m)
            case None
            then have "v = JNull" using r by (cases v) auto
            then show ?thesis
              using Response Valid r None null [OF Inr \<open>url_error ev ?url = None\<close>]
                HandleStart_null [OF Inr \<open>url_error ev ?url = None\<close>] by simp
          next
            case (Some obj)
            then obtain kvs where "v = JObj kvs" "obj = map_of (rev kvs)" using r by (cases v) auto
            then show ?thesis
              using Response Valid r Some object [OF Inr None]
                HandleStart_object [OF Inr None] by simp
          qed
        qed
      qed
    qed
  qed
qed

lemma HandleStop_lookup_err:
  "getClientBackend ps (db c) (t_lookup ev) clientID = Inl err \<Longrightarrow>
   HandleStop ps ev req clientID c =
     JSON 500 [''error'' \<mapsto> JStr ''Error retrieving backend'', ''details'' \<mapsto> JStr err] c"
  by (simp add: HandleStop_def)

lemma HandleStop_url_err:
  "getClientBackend ps (db c) (t_lookup ev) clientID = Inr b \<Longrightarrow>
   url_error ev (''http://'' @ b @ '':8080/stop_agent'') = Some err \<Longrightarrow>
   HandleStop ps ev req clientID c =
     JSON 500 [''error'' \<mapsto> JStr ''Error creating request'', ''details'' \<mapsto> JStr err] c"
  by (simp add: HandleStop_def)

lemma HandleStop_transport:
  "getClientBackend ps (db c) (t_lookup ev) clientID = Inr b \<Longrightarrow>
   url_error ev (''http://'' @ b @ '':8080/stop_agent'') = None \<Longrightarrow>
   upstream ev (''http://'' @ b @ '':8080/stop_agent'') req = TransportErr err \<Longrightarrow>
   HandleStop ps ev req clientID c =
     JSON 502 [''error'' \<mapsto> JStr ''Failed to reach backend service'', ''details'' \<mapsto> JStr err]
       (c\<lparr>calls := calls c @ [(''http://'' @ b @ '':8080/stop_agent'', req)]\<rparr>)"
  by (simp add: HandleStop_def)

lemma HandleStop_unread:
  "getClientBackend ps (db c) (t_lookup ev) clientID = Inr b \<Longrightarrow>
   url_error ev (''http://'' @ b @ '':8080/stop_agent'') = None \<Longrightarrow>
   upstream ev (''http://'' @ b @ '':8080/stop_agent'') req = Response code (ReadErr err) \<Longrightarrow>
   HandleStop ps ev req clientID c =
     JSON 500 [''error'' \<mapsto> JStr ''Error reading response body'', ''details'' \<mapsto> JStr err]
       (c\<lparr>calls := calls c @ [(''http://'' @ b @ '':8080/stop_agent'', req)]\<rparr>)"
  by (simp add: HandleStop_def)

lemma HandleStop_invalid:
  "getClientBackend ps (db c) (t_lookup ev) clientID = Inr b \<Longrightarrow>
   url_error ev (''http://'' @ b @ '':8080/stop_agent'') = None \<Longrightarrow>
   upstream ev (''http://'' @ b @ '':8080/stop_agent'') req = Response code (Invalid err) \<Longrightarrow>
   HandleStop ps ev req clientID c =
     JSON 500 [''error'' \<mapsto> JStr ''Error parsing response body'', ''details'' \<mapsto> JStr err]
       (c\<lparr>calls := calls c @ [(''http://'' @ b @ '':8080/stop_agent'', req)]\<rparr>)"
  by (simp add: HandleStop_def)

lemma HandleStop_not_object:
  "getClientBackend ps (db c) (t_lookup ev) clientID = Inr b \<Longrightarrow>
   url_error ev (''http://'' @ b @ '':8080/stop_agent'') = None \<Longrightarrow>
   upstream ev (''http://'' @ b @ '':8080/stop_agent'') req = Response code (Valid v) \<Longrightarrow>
   unmarshal_map v = Inl err \<Longrightarrow>
   HandleStop ps ev req clientID c =
     JSON 500 [''error'' \<mapsto> JStr ''Error parsing response body'', ''details'' \<mapsto> JStr err]
       (c\<lparr>calls := calls c @ [(''http://'' @ b @ '':8080/stop_agent'', req)]\<rparr>)"
  by (simp add: HandleStop_def)

lemma HandleStop_null:
  "getClientBackend ps (db c) (t_lookup ev) clientID = Inr b \<Longrightarrow>
   url_error ev (''http://'' @ b @ '':8080/stop_agent'') = None \<Longrightarrow>
   upstream ev (''http://'' @ b @ '':8080/stop_agent'') req = Response code (Valid v) \<Longrightarrow>
   unmarshal_map v = Inr None \<Longrightarrow>
   HandleStop ps ev req clientID c =
     c\<lparr>calls := calls c @ [(''http://'' @ b @ '':8080/stop_agent'', req)], panicked := True\<rparr>"
  by (simp add: HandleStop_def)

lemma HandleStop_object:
  "getClientBackend ps (db c) (t_lookup ev) clientID = Inr b \<Longrightarrow>
   url_error ev (''http://'' @ b @ '':8080/stop_agent'') = None \<Longrightarrow>
   upstream ev (''http://'' @ b @ '':8080/stop_agent'') req = Response code (Valid v) \<Longrightarrow>
   unmarshal_map v = Inr (Some obj) \<Longrightarrow>
   HandleStop ps ev req clientID c =
     (if 200 \<le> code \<and> code < 300
      then (JSON code (obj(''clientID'' \<mapsto> JStr clientID))
              (c\<lparr>calls := calls c @ [(''http://'' @ b @ '':8080/stop_agent'', req)]\<rparr>))
           \<lparr>db := snd (RemoveActiveRequestFromBackend ps (db c) (t_record ev) b clientID)\<rparr>
      else JSON code (obj(''clientID'' \<mapsto> JStr clientID))
             (c\<lparr>calls := calls c @ [(''http://'' @ b @ '':8080/stop_agent'', req)]\<rparr>))"
  by (simp add: HandleStop_def Let_def db_JSON)

lemma HandleStop_cases:
  obtains
    (lookup_err) err where
      "getClientBackend ps (db c) (t_lookup ev) clientID = Inl err"
      "HandleStop ps ev req clientID c =
         JSON 500 [''error'' \<mapsto> JStr ''Error retrieving backend'', ''details'' \<mapsto> JStr err] c"
  | (url_err) b err where
      "getClientBackend ps (db c) (t_lookup ev) clientID = Inr b"
      "url_error ev (''http://'' @ b @ '':8080/stop_agent'') = Some err"
      "HandleStop ps ev req clientID c =
         JSON 500 [''error'' \<mapsto> JStr ''Error creating request'', ''details'' \<mapsto> JStr err] c"
  | (failed) b code msg where
      "getClientBackend ps (db c) (t_lookup ev) clientID = Inr b"
      "url_error ev (''http://'' @ b @ '':8080/stop_agent'') = None"
      "\<forall>k obj. upstream ev (''http://'' @ b @ '':8080/stop_agent'') req \<noteq> Response k (Valid (JObj obj))"
      "upstream ev (''http://'' @ b @ '':8080/stop_agent'') req \<noteq> Response code (Valid JNull)"
      "HandleStop ps ev req clientID c =
         JSON code msg (c\<lparr>calls := calls c @ [(''http://'' @ b @ '':8080/stop_agent'', req)]\<rparr>)"
      "code = 500 \<or> code = 502"
  | (null) b code where
      "getClientBackend ps (db c) (t_lookup ev) clientID = Inr b"
      "url_error ev (''http://'' @ b @ '':8080/stop_agent'') = None"
      "upstream ev (''http://'' @ b @ '':8080/stop_agent'') req = Response code (Valid JNull)"
      "HandleStop ps ev req clientID c =
         c\<lparr>calls := calls c @ [(''http://'' @ b @ '':8080/stop_agent'', req)], panicked := True\<rparr>"
  | (object) b code kvs where
      "getClientBackend ps (db c) (t_lookup ev) clientID = Inr b"
      "url_error ev (''http://'' @ b @ '':8080/stop_agent'') = None"
      "upstream ev (''http://'' @ b @ '':8080/stop_agent'') req = Response code (Valid (JObj kvs))"
      "HandleStop ps ev req clientID c =
         (if 200 \<le> code \<and> code < 300
          then (JSON code ((map_of (rev kvs))(''clientID'' \<mapsto> JStr clientID))
                  (c\<lparr>calls := calls c @ [(''http://'' @ b @ '':8080/stop_agent'', req)]\<rparr>))
               \<lparr>db := snd (RemoveActiveRequestFromBackend ps (db c) (t_record ev) b clientID)\<rparr>
          else JSON code ((map_of (rev kvs))(''clientID'' \<mapsto> JStr clientID))
                 (c\<lparr>calls := calls c @ [(''http://'' @ b @ '':8080/stop_agent'', req)]\<rparr>))"
proof (cases "getClientBackend ps (db c) (t_lookup ev) clientID")
  case (Inl err)
  then show ?thesis using lookup_err HandleStop_lookup_err by blast
next
  case (Inr b)
  let ?url = "''http://'' @ b @ '':8080/stop_agent''"
  show ?thesis
  proof (cases "url_error ev ?url")
    case (Some err)
    then show ?thesis using Inr url_err HandleStop_url_err by blast
  next
    case None
    show ?thesis
    proof (cases "upstream ev ?url req")
      case (TransportErr err)
      then show ?thesis using failed [OF Inr None _ _ HandleStop_transport [OF Inr None TransportErr]] by simp
    next
      case (Response code body)
      show ?thesis
      proof (cases body)
        case (ReadErr err)
        then show ?thesis using Response failed [OF Inr None _ _ HandleStop_unread [OF Inr None]] by simp
      next
        case (Invalid err)
        then show ?thesis using Response failed [OF Inr None _ _ HandleStop_invalid [OF Inr None]] by simp
      next
        case (Valid v)
        show ?thesis
        proof (cases "unmarshal_map v")
          case (Inl err)
          then have "\<forall>obj. v \<noteq> JObj obj" "v \<noteq> JNull" by auto
          then show ?thesis
            using Response Valid Inl failed [OF Inr None _ _ HandleStop_not_object [OF Inr None]] by simp
        next
          case r: (Inr m)
          show ?thesis
          proof (cases m)
            case None
            then have "v = JNull" using r by (cases v) auto
            then show ?thesis
              using Response Valid r None null [OF Inr \<open>url_error ev ?url = None\<close>]
                HandleStop_null [OF Inr \<open>url_error ev ?url = None\<close>] by simp
          next
            case (Some obj)
            then obtain kvs where "v = JObj kvs" "obj = map_of (rev kvs)" using r by (cases v) auto
            then show ?thesis
              using Response Valid r Some object [OF Inr None]
                HandleStop_object [OF Inr None] by simp
          qed
        qed
      qed
    qed
  qed
qed

lemma ShouldBindJSON_Inr:
  "ShouldBindJSON b = Inr req \<Longrightarrow> ChannelName req \<noteq> '''' \<and> UID req \<noteq> 0"
  by (auto simp: ShouldBindJSON_def split: req_body.splits option.splits if_splits)


lemma validateAndHandleStop_bound:
  "ShouldBindJSON (req_body rq) = Inr req \<Longrightarrow>
   validateAndHandleStop ps ev rq c = HandleStop ps ev req (getClientID ev rq) c"
  using ShouldBindJSON_Inr [of "req_body rq" req]
  by (simp add: validateAndHandleStop_def Validate_def)


subsection \<open>Splitting the allow-list\<close>

lemma Split_not_Nil: "Split s \<noteq> []"
  by (induction s) (auto split: list.splits)

lemma Split_no_comma: "w \<in> set (Split s) \<Longrightarrow> CHR '','' \<notin> set w"
  by (induction s arbitrary: w) (auto split: list.splits if_splits)

lemma Join_Split: "Join (Split s) = s"
proof (induction s)
  case Nil
  then show ?case by simp
next
  case (Cons x xs)
  obtain w ws where s: "Split xs = w # ws" using Split_not_Nil [of xs] by (cases "Split xs") auto
  show ?case
  proof (cases "x = CHR '',''")
    case True
    then show ?thesis using Cons s by simp
  next
    case False
    then show ?thesis using Cons s by (cases ws) auto
  qed
qed

subsection \<open>The origin check\<close>

lemma header_get_Header_same: "header_get (Header k v c) k = v"
  by (simp add: Header_def header_get_def)

lemma header_get_Header_other: "k' \<noteq> k \<Longrightarrow> header_get (Header k v c) k' = header_get c k'"
  by (simp add: Header_def header_get_def)

lemma header_get_cors_headers:
  "header_get (cors_headers origin c) ''Access-Control-Allow-Origin'' = origin"
  "header_get (cors_headers origin c) ''Access-Control-Allow-Methods'' =
     ''GET, POST, DELETE, PATCH, OPTIONS''"
  "header_get (cors_headers origin c) ''Access-Control-Allow-Credentials'' = ''true''"
  by (simp_all add: cors_headers_def header_get_Header_same header_get_Header_other)

lemma cors_headers_frame:
  "status (cors_headers origin c) = status c" "rbody (cors_headers origin c) = rbody c"
  "aborted (cors_headers origin c) = aborted c" "panicked (cors_headers origin c) = panicked c"
  "db (cors_headers origin c) = db c" "calls (cors_headers origin c) = calls c"
  by (simp_all add: cors_headers_def Header_def)

lemma CORS_refused:
  "\<not> isOriginAllowed ps (hdr_origin rq) \<Longrightarrow>
   CORShttpHeaders ps rq next c =
     Abort (JSON 403 [''error'' \<mapsto> JStr ''Origin not allowed'']
              (Header ''Content-Type'' ''application/json'' c))"
  by (simp add: CORShttpHeaders_def)

lemma CORS_preflight:
  "isOriginAllowed ps (hdr_origin rq) \<Longrightarrow> req_method rq = ''OPTIONS'' \<Longrightarrow>
   CORShttpHeaders ps rq next c = AbortWithStatus 204 (cors_headers (hdr_origin rq) c)"
  by (simp add: CORShttpHeaders_def)

lemma CORS_passed:
  "isOriginAllowed ps (hdr_origin rq) \<Longrightarrow> req_method rq \<noteq> ''OPTIONS'' \<Longrightarrow>
   CORShttpHeaders ps rq next c = next (cors_headers (hdr_origin rq) c)"
  by (simp add: CORShttpHeaders_def)

subsection \<open>The chains of the server\<close>

lemma Handlers_setupServer:
  "Handlers setupServer = [Logger, Recovery, CORS, NoCacheH, TimestampH]"
  by (simp add: setupServer_def RegisterRoutes_def addRoute_def Use_def Default_def)

lemma routes_setupServer:
  "routes setupServer =
     [(''POST'', ''/start_agent'', [Logger, Recovery, CORS, NoCacheH, TimestampH, StartAgent]),
      (''POST'', ''/stop_agent'', [Logger, Recovery, CORS, NoCacheH, TimestampH, StopAgent]),
      (''GET'', ''/health'', [Logger, Recovery, CORS, NoCacheH, TimestampH, Health]),
      (''GET'', ''/ping'', [Logger, Recovery, CORS, NoCacheH, TimestampH, PingH])]"
  by (simp add: setupServer_def RegisterRoutes_def addRoute_def Use_def Default_def)

lemma find_route_setupServer:
  "find_route m p (routes setupServer) = Some chain \<Longrightarrow>
   \<exists>h. chain = [Logger, Recovery, CORS, NoCacheH, TimestampH, h]"
  by (auto simp: routes_setupServer split: if_splits)

lemma run_chain_guarded:
  "\<not> aborted c \<Longrightarrow> \<not> panicked c \<Longrightarrow>
   run_chain ps ev rq (Logger # Recovery # CORS # rest) c =
     (let c1 = CORShttpHeaders ps rq (\<lambda>c1. run_chain ps ev rq rest c1) c in
      if panicked c1 then AbortWithStatus 500 (c1\<lparr>panicked := False\<rparr>) else c1)"
  by simp

lemma run_chain_stopped: "aborted c \<Longrightarrow> run_chain ps ev rq hs c = c"
  by (cases hs) simp_all

lemma ServeHTTP_refused:
  assumes "\<not> isOriginAllowed ps (hdr_origin rq)"
  shows "ServeHTTP ps ev setupServer rq st =
           Abort (JSON 403 [''error'' \<mapsto> JStr ''Origin not allowed'']
                    (Header ''Content-Type'' ''application/json'' (new_ctx st)))"
proof (cases "find_route (req_method rq) (req_path rq) (routes setupServer)")
  case None
  have "run_chain ps ev rq (Handlers setupServer) ((new_ctx st)\<lparr>status := 404\<rparr>) =
          Abort (JSON 403 [''error'' \<mapsto> JStr ''Origin not allowed'']
                   (Header ''Content-Type'' ''application/json'' ((new_ctx st)\<lparr>status := 404\<rparr>)))"
    unfolding Handlers_setupServer
    by (subst run_chain_guarded)
       (simp_all add: new_ctx_def CORS_refused [OF assms] Abort_def JSON_def Header_def)
  then show ?thesis
    by (simp add: ServeHTTP_def None Abort_def JSON_def Header_def new_ctx_def)
next
  case (Some chain)
  then obtain h where chain: "chain = [Logger, Recovery, CORS, NoCacheH, TimestampH, h]"
    using find_route_setupServer by blast
  have "run_chain ps ev rq chain (new_ctx st) =
          Abort (JSON 403 [''error'' \<mapsto> JStr ''Origin not allowed'']
                   (Header ''Content-Type'' ''application/json'' (new_ctx st)))"
    unfolding chain
    by (subst run_chain_guarded)
       (simp_all add: new_ctx_def CORS_refused [OF assms] Abort_def JSON_def Header_def)
  then show ?thesis by (simp add: ServeHTTP_def Some)
qed

lemma ServeHTTP_preflight:
  assumes "isOriginAllowed ps (hdr_origin rq)" and "req_method rq = ''OPTIONS''"
  shows "ServeHTTP ps ev setupServer rq st =
           AbortWithStatus 204 (cors_headers (hdr_origin rq) (new_ctx st))"
proof -
  have "find_route (req_method rq) (req_path rq) (routes setupServer) = None"
    by (simp add: routes_setupServer assms(2))
  moreover have "run_chain ps ev rq (Handlers setupServer) ((new_ctx st)\<lparr>status := 404\<rparr>) =
          AbortWithStatus 204 (cors_headers (hdr_origin rq) ((new_ctx st)\<lparr>status := 404\<rparr>))"
    unfolding Handlers_setupServer
    by (subst run_chain_guarded)
       (simp_all add: new_ctx_def CORS_preflight [OF assms] AbortWithStatus_def cors_headers_frame)
  ultimately show ?thesis
    by (simp add: ServeHTTP_def AbortWithStatus_def cors_headers_def Header_def new_ctx_def)
qed

subsection \<open>Least-loaded selection\<close>






subsection \<open>Sticky routing\<close>

text \<open>
  C2. \<open>getOrAssignBackend\<close> reads \<open>client:{clientID}\<close>: a stored value is returned
  whatever the configuration, so without any selection; a missing key gives the outcome of
  \<open>getLeastLoadedBackend\<close>; any other error of the store is returned as a failure. And
  after a start that the backend answered 2xx and whose recording succeeded, a second start
  for the same client, looked up before the mapping expires, is sent to the same backend.
\<close>

theorem getOrAssignBackend_sticky:
  "(case redis_get st now (''client:'' @ clientID) of
      Inr b \<Rightarrow> \<forall>ps'. getOrAssignBackend ps' st now clientID = Inr b
    | Inl RedisNil \<Rightarrow>
        getOrAssignBackend ps st now clientID =
          (case getLeastLoadedBackend ps st now of
             Inl err \<Rightarrow> Inl (''error getting least loaded backend: '' @ err)
           | Inr ip \<Rightarrow> Inr ip)
    | Inl err \<Rightarrow>
        getOrAssignBackend ps st now clientID = Inl (''error getting backend: '' @ redis_err_msg err))
   \<and>
   (getOrAssignBackend ps (db c) (t_lookup ev) clientID = Inr b \<and>
    url_error ev (''http://'' @ b @ '':8080/start_agent'') = None \<and>
    upstream ev (''http://'' @ b @ '':8080/start_agent'') req = Response code (Valid (JObj kvs)) \<and>
    200 \<le> code \<and> code < 300 \<and>
    fst (AddActiveRequestToBackend ps (db c) (t_record ev) b clientID) = None \<and>
    (0 < MappingTTL ps \<longrightarrow> t_lookup ev' \<le> t_record ev + MappingTTL ps) \<and>
    url_error ev' (''http://'' @ b @ '':8080/start_agent'') = None
    \<longrightarrow>
      getOrAssignBackend ps (db (HandleStart ps ev req clientID c)) (t_lookup ev') clientID = Inr b \<and>
      calls (HandleStart ps ev' req' clientID (HandleStart ps ev req clientID c)) =
        calls c @ [(''http://'' @ b @ '':8080/start_agent'', req),
                   (''http://'' @ b @ '':8080/start_agent'', req')])"
proof (intro conjI impI)
  show "case redis_get st now (''client:'' @ clientID) of
      Inr b \<Rightarrow> \<forall>ps'. getOrAssignBackend ps' st now clientID = Inr b
    | Inl RedisNil \<Rightarrow>
        getOrAssignBackend ps st now clientID =
          (case getLeastLoadedBackend ps st now of
             Inl err \<Rightarrow> Inl (''error getting least loaded backend: '' @ err)
           | Inr ip \<Rightarrow> Inr ip)
    | Inl err \<Rightarrow>
        getOrAssignBackend ps st now clientID = Inl (''error getting backend: '' @ redis_err_msg err)"
    by (simp add: getOrAssignBackend_def split: sum.splits redis_err.splits)
next
  let ?url = "''http://'' @ b @ '':8080/start_agent''"
  let ?c1 = "HandleStart ps ev req clientID c"
  assume H: "getOrAssignBackend ps (db c) (t_lookup ev) clientID = Inr b \<and>
    url_error ev ?url = None \<and>
    upstream ev ?url req = Response code (Valid (JObj kvs)) \<and>
    200 \<le> code \<and> code < 300 \<and>
    fst (AddActiveRequestToBackend ps (db c) (t_record ev) b clientID) = None \<and>
    (0 < MappingTTL ps \<longrightarrow> t_lookup ev' \<le> t_record ev + MappingTTL ps) \<and>
    url_error ev' ?url = None"
  then have a: "getOrAssignBackend ps (db c) (t_lookup ev) clientID = Inr b"
    and u: "url_error ev ?url = None"
    and r: "upstream ev ?url req = Response code (Valid (JObj kvs))"
    and code: "200 \<le> code \<and> code < 300"
    and rec: "fst (AddActiveRequestToBackend ps (db c) (t_record ev) b clientID) = None"
    and ttl: "0 < MappingTTL ps \<longrightarrow> t_lookup ev' \<le> t_record ev + MappingTTL ps"
    and u': "url_error ev' ?url = None" by simp_all
  have c1: "?c1 = (JSON code ((map_of (rev kvs))(''clientID'' \<mapsto> JStr clientID))
                  (c\<lparr>calls := calls c @ [(?url, req)]\<rparr>))
               \<lparr>db := snd (AddActiveRequestToBackend ps (db c) (t_record ev) b clientID)\<rparr>"
    using HandleStart_object [OF a u r, of "map_of (rev kvs)"] code by simp
  have db1: "db ?c1 = snd (AddActiveRequestToBackend ps (db c) (t_record ev) b clientID)"
    by (simp add: c1)
  have calls1: "calls ?c1 = calls c @ [(?url, req)]"
    by (simp add: c1 calls_JSON)
  have "redis_get (db ?c1) (t_lookup ev') (''client:'' @ clientID) = Inr b"
    unfolding db1 by (rule AddActive_mapping [OF rec ttl])
  then show again: "getOrAssignBackend ps (db ?c1) (t_lookup ev') clientID = Inr b"
    by (simp add: getOrAssignBackend_def)
  have "calls (HandleStart ps ev' req' clientID ?c1) = calls ?c1 @ [(?url, req')]"
    using again u'
    by (cases rule: HandleStart_cases [of ps ?c1 ev' clientID req']) (auto simp: calls_JSON)
  then show "calls (HandleStart ps ev' req' clientID ?c1) = calls c @ [(?url, req), (?url, req')]"
    by (simp add: calls1)
qed

text \<open>A first start on the empty store is recorded on the first backend; so is the second.\<close>

lemma ex_assign_first:
  "getOrAssignBackend ps_two empty_store 1000 ''id-1'' = Inr ''10.0.0.1''"
  by (simp add: getOrAssignBackend_def redis_get_def visible_def getLeastLoadedBackend_def
        getBackendStatus_def redis_zcount_def ps_two_def empty_store_def)

lemma ex_record_first:
  "fst (AddActiveRequestToBackend ps_two empty_store 1500 ''10.0.0.1'' ''id-1'') = None"
  by (simp add: AddActive_fst fst_redis_set redis_zadd_def visible_def keyspace_redis_set
        faulty_redis_set empty_store_def)

theorem getOrAssignBackend_sticky_witness:
  "getOrAssignBackend ps_two empty_store 1000 ''id-1'' = Inr ''10.0.0.1'' \<and>
   fst (AddActiveRequestToBackend ps_two empty_store 1500 ''10.0.0.1'' ''id-1'') = None \<and>
   getOrAssignBackend ps_two (db (HandleStart ps_two ev_ok req_c1 ''id-1'' (new_ctx empty_store)))
     2000 ''id-1'' = Inr ''10.0.0.1'' \<and>
   calls (HandleStart ps_two ev_later req_c1 ''id-1''
            (HandleStart ps_two ev_ok req_c1 ''id-1'' (new_ctx empty_store))) =
     [(''http://10.0.0.1:8080/start_agent'', req_c1),
      (''http://10.0.0.1:8080/start_agent'', req_c1)]"
proof -
  let ?c = "new_ctx empty_store"
  have a: "getOrAssignBackend ps_two (db ?c) (t_lookup ev_ok) ''id-1'' = Inr ''10.0.0.1''"
    using ex_assign_first by (simp add: new_ctx_def ev_ok_def)
  have rec: "fst (AddActiveRequestToBackend ps_two (db ?c) (t_record ev_ok) ''10.0.0.1'' ''id-1'') = None"
    using ex_record_first by (simp add: new_ctx_def ev_ok_def)
  have rest: "url_error ev_ok (''http://'' @ ''10.0.0.1'' @ '':8080/start_agent'') = None"
    "upstream ev_ok (''http://'' @ ''10.0.0.1'' @ '':8080/start_agent'') req_c1 =
       Response 200 (Valid (JObj [(''status'', JStr ''ok'')]))"
    "0 < MappingTTL ps_two \<longrightarrow> t_lookup ev_later \<le> t_record ev_ok + MappingTTL ps_two"
    "url_error ev_later (''http://'' @ ''10.0.0.1'' @ '':8080/start_agent'') = None"
    by (simp_all add: ev_ok_def ev_later_def ps_two_def)
  have "getOrAssignBackend ps_two (db (HandleStart ps_two ev_ok req_c1 ''id-1'' ?c))
          (t_lookup ev_later) ''id-1'' = Inr ''10.0.0.1'' \<and>
        calls (HandleStart ps_two ev_later req_c1 ''id-1'' (HandleStart ps_two ev_ok req_c1 ''id-1'' ?c)) =
          calls ?c @ [(''http://'' @ ''10.0.0.1'' @ '':8080/start_agent'', req_c1),
                      (''http://'' @ ''10.0.0.1'' @ '':8080/start_agent'', req_c1)]"
    using getOrAssignBackend_sticky [where ps = ps_two and c = "new_ctx empty_store" and ev = ev_ok
        and clientID = "''id-1''" and b = "''10.0.0.1''" and req = req_c1 and code = 200
        and kvs = "[(''status'', JStr ''ok'')]" and ev' = ev_later and req' = req_c1,
        THEN conjunct2] a rec rest
    by simp
  then show ?thesis
    using ex_assign_first ex_record_first by (simp add: new_ctx_def ev_later_def)
qed

subsection \<open>Recording a start\<close>

lemma AddActive_entry:
  assumes "fst (AddActiveRequestToBackend ps st t b c) = None"
  shows "list_ex (\<lambda>p. p = (c, t)) (active_set (snd (AddActiveRequestToBackend ps st t b c)) b)"
proof -
  have "fst (redis_zadd (snd (redis_set st t (''client:'' @ c) b (MappingTTL ps))) t
            (''backend:'' @ b) t c) = None"
    using assms by (simp only: AddActive_fst)
  from redis_zadd_ok [OF this] show ?thesis
    by (simp add: AddActive_snd active_set_def zset_put_def)
qed

text \<open>
  C3 (as amended). A start changes the store only by \<open>AddActiveRequestToBackend\<close>, and
  that is called if and only if the upstream call returned a 2xx status with a body that was
  read and parsed as a JSON object; when the store accepts the two writes, the forward mapping
  and the entry of the active set are there. The response (upstream status, object with
  \<open>clientID\<close>) is the same whether or not the recording fails. An upstream transport
  failure gives 502 and leaves the store as it was.
\<close>

theorem HandleStart_records:
  "(db (HandleStart ps ev req clientID c) \<noteq> db c \<longrightarrow>
      (\<exists>b code kvs.
         getOrAssignBackend ps (db c) (t_lookup ev) clientID = Inr b \<and>
         url_error ev (''http://'' @ b @ '':8080/start_agent'') = None \<and>
         upstream ev (''http://'' @ b @ '':8080/start_agent'') req = Response code (Valid (JObj kvs)) \<and>
         200 \<le> code \<and> code < 300)) \<and>
   (getOrAssignBackend ps (db c) (t_lookup ev) clientID = Inr b \<and>
    url_error ev (''http://'' @ b @ '':8080/start_agent'') = None \<and>
    upstream ev (''http://'' @ b @ '':8080/start_agent'') req = Response code (Valid (JObj kvs)) \<and>
    200 \<le> code \<and> code < 300 \<longrightarrow>
      db (HandleStart ps ev req clientID c) =
        snd (AddActiveRequestToBackend ps (db c) (t_record ev) b clientID) \<and>
      status (HandleStart ps ev req clientID c) = code \<and>
      rbody (HandleStart ps ev req clientID c) =
        Some (JsonBody ((map_of (rev kvs))(''clientID'' \<mapsto> JStr clientID))) \<and>
      (fst (AddActiveRequestToBackend ps (db c) (t_record ev) b clientID) = None \<longrightarrow>
         redis_get (db (HandleStart ps ev req clientID c)) (t_record ev) (''client:'' @ clientID) = Inr b \<and>
         list_ex (\<lambda>p. p = (clientID, t_record ev))
           (active_set (db (HandleStart ps ev req clientID c)) b))) \<and>
   (getOrAssignBackend ps (db c) (t_lookup ev) clientID = Inr b \<and>
    url_error ev (''http://'' @ b @ '':8080/start_agent'') = None \<and>
    upstream ev (''http://'' @ b @ '':8080/start_agent'') req = TransportErr msg \<longrightarrow>
      status (HandleStart ps ev req clientID c) = 502 \<and>
      db (HandleStart ps ev req clientID c) = db c)"
proof (intro conjI)
  show "db (HandleStart ps ev req clientID c) \<noteq> db c \<longrightarrow>
      (\<exists>b code kvs.
         getOrAssignBackend ps (db c) (t_lookup ev) clientID = Inr b \<and>
         url_error ev (''http://'' @ b @ '':8080/start_agent'') = None \<and>
         upstream ev (''http://'' @ b @ '':8080/start_agent'') req = Response code (Valid (JObj kvs)) \<and>
         200 \<le> code \<and> code < 300)"
  proof (cases rule: HandleStart_cases [of ps c ev clientID req])
    case (object b code kvs)
    then show ?thesis by (cases "200 \<le> code \<and> code < 300") (auto simp: db_JSON)
  qed (simp_all add: db_JSON)
next
  let ?url = "''http://'' @ b @ '':8080/start_agent''"
  let ?c' = "HandleStart ps ev req clientID c"
  show "getOrAssignBackend ps (db c) (t_lookup ev) clientID = Inr b \<and>
    url_error ev ?url = None \<and>
    upstream ev ?url req = Response code (Valid (JObj kvs)) \<and>
    200 \<le> code \<and> code < 300 \<longrightarrow>
      db ?c' = snd (AddActiveRequestToBackend ps (db c) (t_record ev) b clientID) \<and>
      status ?c' = code \<and>
      rbody ?c' = Some (JsonBody ((map_of (rev kvs))(''clientID'' \<mapsto> JStr clientID))) \<and>
      (fst (AddActiveRequestToBackend ps (db c) (t_record ev) b clientID) = None \<longrightarrow>
         redis_get (db ?c') (t_record ev) (''client:'' @ clientID) = Inr b \<and>
         list_ex (\<lambda>p. p = (clientID, t_record ev)) (active_set (db ?c') b))"
  proof (intro impI, elim conjE)
    assume a: "getOrAssignBackend ps (db c) (t_lookup ev) clientID = Inr b"
      and u: "url_error ev ?url = None"
      and r: "upstream ev ?url req = Response code (Valid (JObj kvs))"
      and code: "200 \<le> code" "code < 300"
    have c': "?c' = (JSON code ((map_of (rev kvs))(''clientID'' \<mapsto> JStr clientID))
                  (c\<lparr>calls := calls c @ [(?url, req)]\<rparr>))
               \<lparr>db := snd (AddActiveRequestToBackend ps (db c) (t_record ev) b clientID)\<rparr>"
      using HandleStart_object [OF a u r, of "map_of (rev kvs)"] code by simp
    have d: "db ?c' = snd (AddActiveRequestToBackend ps (db c) (t_record ev) b clientID)"
      by (simp add: c')
    have s: "status ?c' = code" by (simp add: c' status_JSON)
    have bd: "rbody ?c' = Some (JsonBody ((map_of (rev kvs))(''clientID'' \<mapsto> JStr clientID)))"
      by (simp add: c' rbody_JSON)
    have w: "fst (AddActiveRequestToBackend ps (db c) (t_record ev) b clientID) = None \<longrightarrow>
         redis_get (db ?c') (t_record ev) (''client:'' @ clientID) = Inr b \<and>
         list_ex (\<lambda>p. p = (clientID, t_record ev)) (active_set (db ?c') b)"
      unfolding d using AddActive_mapping [of ps "db c" "t_record ev" b clientID "t_record ev"]
        AddActive_entry [of ps "db c" "t_record ev" b clientID] by simp
    from d s bd w show "db ?c' = snd (AddActiveRequestToBackend ps (db c) (t_record ev) b clientID) \<and>
      status ?c' = code \<and>
      rbody ?c' = Some (JsonBody ((map_of (rev kvs))(''clientID'' \<mapsto> JStr clientID))) \<and>
      (fst (AddActiveRequestToBackend ps (db c) (t_record ev) b clientID) = None \<longrightarrow>
         redis_get (db ?c') (t_record ev) (''client:'' @ clientID) = Inr b \<and>
         list_ex (\<lambda>p. p = (clientID, t_record ev)) (active_set (db ?c') b))" by blast
  qed
next
  show "getOrAssignBackend ps (db c) (t_lookup ev) clientID = Inr b \<and>
    url_error ev (''http://'' @ b @ '':8080/start_agent'') = None \<and>
    upstream ev (''http://'' @ b @ '':8080/start_agent'') req = TransportErr msg \<longrightarrow>
      status (HandleStart ps ev req clientID c) = 502 \<and>
      db (HandleStart ps ev req clientID c) = db c"
    using HandleStart_transport [of ps c ev clientID b req msg]
    by (auto simp: status_JSON db_JSON)
qed

text \<open>
  C3 as stated fails where the upstream answers 200 with a body that is not JSON: the router
  answers 500 and records nothing.
\<close>

theorem HandleStart_records_counterexample:
  "upstream ev_garbled ''http://10.0.0.1:8080/start_agent'' req_c1 =
     Response 200 (Invalid ''unexpected end of JSON input'') \<and>
   status (HandleStart ps_two ev_garbled req_c1 ''id-1'' (new_ctx empty_store)) = 500 \<and>
   db (HandleStart ps_two ev_garbled req_c1 ''id-1'' (new_ctx empty_store)) = empty_store \<and>
   keyspace (db (HandleStart ps_two ev_garbled req_c1 ''id-1'' (new_ctx empty_store))) ''client:id-1'' = None \<and>
   active_set (db (HandleStart ps_two ev_garbled req_c1 ''id-1'' (new_ctx empty_store))) ''10.0.0.1'' = []"
proof -
  have a: "getOrAssignBackend ps_two (db (new_ctx empty_store)) (t_lookup ev_garbled) ''id-1'' = Inr ''10.0.0.1''"
    using ex_assign_first by (simp add: new_ctx_def ev_garbled_def ev_ok_def)
  have "HandleStart ps_two ev_garbled req_c1 ''id-1'' (new_ctx empty_store) =
     JSON 500 [''error'' \<mapsto> JStr ''Error parsing response body'',
               ''details'' \<mapsto> JStr ''unexpected end of JSON input'']
       ((new_ctx empty_store)\<lparr>calls := calls (new_ctx empty_store) @
           [(''http://'' @ ''10.0.0.1'' @ '':8080/start_agent'', req_c1)]\<rparr>)"
    by (rule HandleStart_invalid [OF a]) (simp_all add: ev_garbled_def ev_ok_def)
  then show ?thesis
    by (simp add: status_JSON db_JSON new_ctx_def active_set_def empty_store_def ev_garbled_def)
qed

text \<open>A start answered 200 is recorded; a start whose upstream call times out is not.\<close>

theorem HandleStart_records_witness:
  "status (HandleStart ps_two ev_ok req_c1 ''id-1'' (new_ctx empty_store)) = 200 \<and>
   redis_get (db (HandleStart ps_two ev_ok req_c1 ''id-1'' (new_ctx empty_store))) 1500
     ''client:id-1'' = Inr ''10.0.0.1'' \<and>
   list_ex (\<lambda>p. p = (''id-1'', 1500))
     (active_set (db (HandleStart ps_two ev_ok req_c1 ''id-1'' (new_ctx empty_store))) ''10.0.0.1'') \<and>
   status (HandleStart ps_two ev_down req_c1 ''id-1'' (new_ctx empty_store)) = 502 \<and>
   db (HandleStart ps_two ev_down req_c1 ''id-1'' (new_ctx empty_store)) = empty_store"
proof -
  let ?c = "new_ctx empty_store"
  have a: "getOrAssignBackend ps_two (db ?c) (t_lookup ev_ok) ''id-1'' = Inr ''10.0.0.1''"
    "getOrAssignBackend ps_two (db ?c) (t_lookup ev_down) ''id-1'' = Inr ''10.0.0.1''"
    using ex_assign_first by (simp_all add: new_ctx_def ev_ok_def ev_down_def)
  have rec: "fst (AddActiveRequestToBackend ps_two (db ?c) (t_record ev_ok) ''10.0.0.1'' ''id-1'') = None"
    using ex_record_first by (simp add: new_ctx_def ev_ok_def)
  have rest: "url_error ev_ok (''http://'' @ ''10.0.0.1'' @ '':8080/start_agent'') = None"
    "upstream ev_ok (''http://'' @ ''10.0.0.1'' @ '':8080/start_agent'') req_c1 =
       Response 200 (Valid (JObj [(''status'', JStr ''ok'')]))"
    "url_error ev_down (''http://'' @ ''10.0.0.1'' @ '':8080/start_agent'') = None"
    "upstream ev_down (''http://'' @ ''10.0.0.1'' @ '':8080/start_agent'') req_c1 =
       TransportErr ''context deadline exceeded''"
    "t_record ev_ok = 1500"
    by (simp_all add: ev_ok_def ev_down_def)
  have ok: "status (HandleStart ps_two ev_ok req_c1 ''id-1'' ?c) = 200 \<and>
      redis_get (db (HandleStart ps_two ev_ok req_c1 ''id-1'' ?c)) (t_record ev_ok)
        (''client:'' @ ''id-1'') = Inr ''10.0.0.1'' \<and>
      list_ex (\<lambda>p. p = (''id-1'', t_record ev_ok))
        (active_set (db (HandleStart ps_two ev_ok req_c1 ''id-1'' ?c)) ''10.0.0.1'')"
    using HandleStart_records [where ps = ps_two and c = "new_ctx empty_store" and ev = ev_ok
        and clientID = "''id-1''" and b = "''10.0.0.1''" and req = req_c1 and code = 200
        and kvs = "[(''status'', JStr ''ok'')]", THEN conjunct2, THEN conjunct1]
      a(1) rec rest(1,2)
    by auto
  have down: "status (HandleStart ps_two ev_down req_c1 ''id-1'' ?c) = 502 \<and>
      db (HandleStart ps_two ev_down req_c1 ''id-1'' ?c) = db ?c"
    using HandleStart_records [where ps = ps_two and c = "new_ctx empty_store" and ev = ev_down
        and clientID = "''id-1''" and b = "''10.0.0.1''" and req = req_c1
        and msg = "''context deadline exceeded''", THEN conjunct2, THEN conjunct2]
      a(2) rest(3,4)
    by auto
  from ok down show ?thesis by (simp add: rest(5) new_ctx_def)
qed

subsection \<open>The response of a start\<close>



subsection \<open>A stop for a client without a mapping\<close>

lemma getClientBackend_unmapped:
  "visible st now (''client:'' @ clientID) = None \<Longrightarrow>
   \<exists>err. getClientBackend ps st now clientID = Inl err"
  by (simp add: getClientBackend_def redis_get_def split: option.splits)

text \<open>
  C5. A client whose key \<open>client:{clientID}\<close> is missing or expired makes
  \<open>getClientBackend\<close> fail; and whenever \<open>getClientBackend\<close> fails, the stop handler
  answers 500 with the error "Error retrieving backend", sends no upstream request and leaves
  the store as it was.
\<close>

theorem HandleStop_unmapped:
  "(visible (db c) (t_lookup ev) (''client:'' @ clientID) = None \<longrightarrow>
      (\<exists>err. getClientBackend ps (db c) (t_lookup ev) clientID = Inl err)) \<and>
   (getClientBackend ps (db c) (t_lookup ev) clientID = Inl err \<longrightarrow>
      status (HandleStop ps ev req clientID c) = 500 \<and>
      rbody (HandleStop ps ev req clientID c) =
        Some (JsonBody [''error'' \<mapsto> JStr ''Error retrieving backend'', ''details'' \<mapsto> JStr err]) \<and>
      calls (HandleStop ps ev req clientID c) = calls c \<and>
      db (HandleStop ps ev req clientID c) = db c) \<and>
   (ShouldBindJSON (req_body rq) = Inr req \<and>
    getClientBackend ps (db c) (t_lookup ev) (getClientID ev rq) = Inl err \<longrightarrow>
      validateAndHandleStop ps ev rq c =
        JSON 500 [''error'' \<mapsto> JStr ''Error retrieving backend'', ''details'' \<mapsto> JStr err] c)"
proof (intro conjI impI)
  assume "visible (db c) (t_lookup ev) (''client:'' @ clientID) = None"
  then show "\<exists>err. getClientBackend ps (db c) (t_lookup ev) clientID = Inl err"
    by (rule getClientBackend_unmapped)
next
  assume e: "getClientBackend ps (db c) (t_lookup ev) clientID = Inl err"
  note h = HandleStop_lookup_err [OF e, of req]
  show "status (HandleStop ps ev req clientID c) = 500" by (simp add: h status_JSON)
  show "rbody (HandleStop ps ev req clientID c) =
        Some (JsonBody [''error'' \<mapsto> JStr ''Error retrieving backend'', ''details'' \<mapsto> JStr err])"
    by (simp add: h rbody_JSON)
  show "calls (HandleStop ps ev req clientID c) = calls c" by (simp add: h calls_JSON)
  show "db (HandleStop ps ev req clientID c) = db c" by (simp add: h db_JSON)
next
  assume "ShouldBindJSON (req_body rq) = Inr req \<and>
    getClientBackend ps (db c) (t_lookup ev) (getClientID ev rq) = Inl err"
  then show "validateAndHandleStop ps ev rq c =
        JSON 500 [''error'' \<mapsto> JStr ''Error retrieving backend'', ''details'' \<mapsto> JStr err] c"
    using validateAndHandleStop_bound [of rq req ps ev c]
      HandleStop_lookup_err [of ps c ev "getClientID ev rq" err req] by simp
qed

text \<open>A stop on the empty store.\<close>

theorem HandleStop_unmapped_witness:
  "visible empty_store 1000 ''client:id-9'' = None \<and>
   getClientBackend ps_two empty_store 1000 ''id-9'' = Inl ''error getting client backend: redis: nil'' \<and>
   status (validateAndHandleStop ps_two ev_ok rq_stop (new_ctx empty_store)) = 500 \<and>
   rbody (validateAndHandleStop ps_two ev_ok rq_stop (new_ctx empty_store)) =
     Some (JsonBody [''error'' \<mapsto> JStr ''Error retrieving backend'',
                     ''details'' \<mapsto> JStr ''error getting client backend: redis: nil'']) \<and>
   calls (validateAndHandleStop ps_two ev_ok rq_stop (new_ctx empty_store)) = [] \<and>
   db (validateAndHandleStop ps_two ev_ok rq_stop (new_ctx empty_store)) = empty_store"
proof -
  let ?c = "new_ctx empty_store"
  have v: "visible empty_store 1000 ''client:id-9'' = None"
    by (simp add: visible_def empty_store_def)
  have g: "getClientBackend ps_two empty_store 1000 ''id-9'' = Inl ''error getting client backend: redis: nil''"
    by (simp add: getClientBackend_def redis_get_def visible_def empty_store_def)
  have b: "ShouldBindJSON (req_body rq_stop) = Inr req_c1"
    by (simp add: ShouldBindJSON_def rq_stop_def req_c1_def)
  have g': "getClientBackend ps_two (db ?c) (t_lookup ev_ok) (getClientID ev_ok rq_stop) =
              Inl ''error getting client backend: redis: nil''"
    using g by (simp add: new_ctx_def ev_ok_def getClientID_def rq_stop_def)
  have "validateAndHandleStop ps_two ev_ok rq_stop ?c =
          JSON 500 [''error'' \<mapsto> JStr ''Error retrieving backend'',
                    ''details'' \<mapsto> JStr ''error getting client backend: redis: nil''] ?c"
    using HandleStop_unmapped [where ps = ps_two and c = "new_ctx empty_store" and ev = ev_ok
        and rq = rq_stop and req = req_c1
        and err = "''error getting client backend: redis: nil''",
        THEN conjunct2, THEN conjunct2] b g'
    by blast
  then show ?thesis
    using v g by (simp add: status_JSON rbody_JSON calls_JSON db_JSON new_ctx_def)
qed

subsection \<open>Start, then stop\<close>


lemma active_set_of_key:
  "keyspace st (''backend:'' @ b) = Some (RZSet z) \<Longrightarrow> active_set st b = z"
  by (simp add: active_set_def)


lemma HandleStart_db_recorded:
  assumes "getOrAssignBackend ps (db c) (t_lookup ev) clientID = Inr b"
      and "url_error ev (''http://'' @ b @ '':8080/start_agent'') = None"
      and "upstream ev (''http://'' @ b @ '':8080/start_agent'') req = Response code (Valid (JObj kvs))"
      and "200 \<le> code \<and> code < 300"
  shows "db (HandleStart ps ev req clientID c) =
           snd (AddActiveRequestToBackend ps (db c) (t_record ev) b clientID)"
  using HandleStart_object [OF assms(1,2,3), of "map_of (rev kvs)"] assms(4) by simp


lemma HandleStop_db_cases:
  "db (HandleStop ps ev req clientID c) = db c \<or>
   (\<exists>b. getClientBackend ps (db c) (t_lookup ev) clientID = Inr b \<and>
        db (HandleStop ps ev req clientID c) =
          snd (redis_zrem (db c) (t_record ev) (''backend:'' @ b) clientID))"
proof (cases rule: HandleStop_cases [of ps c ev clientID req])
  case (object b code kvs)
  then show ?thesis
    by (cases "200 \<le> code \<and> code < 300") (auto simp: db_JSON RemoveActiveRequestFromBackend_def)
qed (simp_all add: db_JSON)




lemma ex_start_facts:
  "url_error ev_ok (''http://'' @ ''10.0.0.1'' @ '':8080/start_agent'') = None"
  "upstream ev_ok (''http://'' @ ''10.0.0.1'' @ '':8080/start_agent'') req_c1 =
     Response 200 (Valid (JObj [(''status'', JStr ''ok'')]))"
  "url_error ev_later (''http://'' @ ''10.0.0.1'' @ '':8080/start_agent'') = None"
  "upstream ev_later (''http://'' @ ''10.0.0.1'' @ '':8080/start_agent'') req_c1 =
     Response 200 (Valid (JObj [(''status'', JStr ''ok'')]))"
  "url_error ev_stop (''http://'' @ ''10.0.0.1'' @ '':8080/stop_agent'') = None"
  "upstream ev_stop (''http://'' @ ''10.0.0.1'' @ '':8080/stop_agent'') req_c1 =
     Response 200 (Valid (JObj [(''status'', JStr ''ok'')]))"
  "t_lookup ev_ok = 1000" "t_record ev_ok = 1500" "t_lookup ev_later = 2000" "t_record ev_later = 2500"
  "t_lookup ev_stop = 3000" "t_record ev_stop = 3500" "MappingTTL ps_two = 3600000"
  by (simp_all add: ev_ok_def ev_later_def ev_stop_def ps_two_def)



subsection \<open>The CORS policy\<close>

text \<open>
  C7. The pieces that \<open>Split\<close> makes of the allow-list are its comma-separated entries:
  they hold no comma, and joined by commas they give the allow-list back. With the allow-list
  \<open>*\<close> every origin is allowed; otherwise an origin is allowed exactly when it equals
  one of these entries. An allowed
  request that is not a preflight goes on with \<open>Access-Control-Allow-Origin\<close> set to its
  origin. A request from an origin that is not allowed is answered 403 with the body
  \<open>{"error":"Origin not allowed"}\<close>, and an allowed \<open>OPTIONS\<close> request is answered 204
  with no body and the CORS headers set; both hold of the middleware and of the server as a
  whole, on every method and path.
\<close>

theorem CORS_policy:
  "Join (Split (AllowOrigin ps)) = AllowOrigin ps \<and>
   (\<forall>w \<in> set (Split (AllowOrigin ps)). CHR '','' \<notin> set w) \<and>
   (AllowOrigin ps = ''*'' \<longrightarrow> isOriginAllowed ps origin) \<and>
   (AllowOrigin ps \<noteq> ''*'' \<longrightarrow>
      (isOriginAllowed ps origin \<longleftrightarrow> origin \<in> set (Split (AllowOrigin ps)))) \<and>
   (isOriginAllowed ps (hdr_origin rq) \<and> req_method rq \<noteq> ''OPTIONS'' \<longrightarrow>
      CORShttpHeaders ps rq next c = next (cors_headers (hdr_origin rq) c) \<and>
      header_get (cors_headers (hdr_origin rq) c) ''Access-Control-Allow-Origin'' = hdr_origin rq) \<and>
   (\<not> isOriginAllowed ps (hdr_origin rq) \<longrightarrow>
      status (CORShttpHeaders ps rq next c) = 403 \<and>
      rbody (CORShttpHeaders ps rq next c) =
        Some (JsonBody [''error'' \<mapsto> JStr ''Origin not allowed'']) \<and>
      aborted (CORShttpHeaders ps rq next c)) \<and>
   (isOriginAllowed ps (hdr_origin rq) \<and> req_method rq = ''OPTIONS'' \<longrightarrow>
      status (CORShttpHeaders ps rq next c) = 204 \<and>
      rbody (CORShttpHeaders ps rq next c) = rbody c \<and>
      aborted (CORShttpHeaders ps rq next c) \<and>
      header_get (CORShttpHeaders ps rq next c) ''Access-Control-Allow-Origin'' = hdr_origin rq \<and>
      header_get (CORShttpHeaders ps rq next c) ''Access-Control-Allow-Methods'' =
        ''GET, POST, DELETE, PATCH, OPTIONS'' \<and>
      header_get (CORShttpHeaders ps rq next c) ''Access-Control-Allow-Credentials'' = ''true'') \<and>
   (\<not> isOriginAllowed ps (hdr_origin rq) \<longrightarrow>
      status (ServeHTTP ps ev setupServer rq st) = 403 \<and>
      rbody (ServeHTTP ps ev setupServer rq st) =
        Some (JsonBody [''error'' \<mapsto> JStr ''Origin not allowed'']) \<and>
      db (ServeHTTP ps ev setupServer rq st) = st \<and>
      calls (ServeHTTP ps ev setupServer rq st) = []) \<and>
   (isOriginAllowed ps (hdr_origin rq) \<and> req_method rq = ''OPTIONS'' \<longrightarrow>
      status (ServeHTTP ps ev setupServer rq st) = 204 \<and>
      rbody (ServeHTTP ps ev setupServer rq st) = None \<and>
      header_get (ServeHTTP ps ev setupServer rq st) ''Access-Control-Allow-Origin'' = hdr_origin rq)"
proof (intro conjI impI)
  show "Join (Split (AllowOrigin ps)) = AllowOrigin ps" by (rule Join_Split)
next
  show "\<forall>w \<in> set (Split (AllowOrigin ps)). CHR '','' \<notin> set w"
    using Split_no_comma by blast
next
  assume "AllowOrigin ps = ''*''"
  then show "isOriginAllowed ps origin" by (simp add: isOriginAllowed_def)
next
  assume "AllowOrigin ps \<noteq> ''*''"
  then show "isOriginAllowed ps origin \<longleftrightarrow> origin \<in> set (Split (AllowOrigin ps))"
    by (auto simp: isOriginAllowed_def list_ex_iff)
next
  assume "isOriginAllowed ps (hdr_origin rq) \<and> req_method rq \<noteq> ''OPTIONS''"
  then show "CORShttpHeaders ps rq next c = next (cors_headers (hdr_origin rq) c)"
    by (simp add: CORS_passed)
next
  show "header_get (cors_headers (hdr_origin rq) c) ''Access-Control-Allow-Origin'' = hdr_origin rq"
    by (rule header_get_cors_headers)
next
  assume n: "\<not> isOriginAllowed ps (hdr_origin rq)"
  show "status (CORShttpHeaders ps rq next c) = 403"
    by (simp add: CORS_refused [OF n] Abort_def status_JSON)
  show "rbody (CORShttpHeaders ps rq next c) =
        Some (JsonBody [''error'' \<mapsto> JStr ''Origin not allowed''])"
    by (simp add: CORS_refused [OF n] Abort_def rbody_JSON)
  show "aborted (CORShttpHeaders ps rq next c)"
    by (simp add: CORS_refused [OF n] Abort_def)
next
  assume "isOriginAllowed ps (hdr_origin rq) \<and> req_method rq = ''OPTIONS''"
  then have p: "CORShttpHeaders ps rq next c = AbortWithStatus 204 (cors_headers (hdr_origin rq) c)"
    by (simp add: CORS_preflight)
  have h: "\<And>k. header_get (AbortWithStatus 204 (cors_headers (hdr_origin rq) c)) k =
                header_get (cors_headers (hdr_origin rq) c) k"
    by (simp add: AbortWithStatus_def header_get_def)
  show "status (CORShttpHeaders ps rq next c) = 204" by (simp add: p AbortWithStatus_def)
  show "rbody (CORShttpHeaders ps rq next c) = rbody c"
    by (simp add: p AbortWithStatus_def cors_headers_frame)
  show "aborted (CORShttpHeaders ps rq next c)" by (simp add: p AbortWithStatus_def)
  show "header_get (CORShttpHeaders ps rq next c) ''Access-Control-Allow-Origin'' = hdr_origin rq"
    unfolding p h by (rule header_get_cors_headers)
  show "header_get (CORShttpHeaders ps rq next c) ''Access-Control-Allow-Methods'' =
        ''GET, POST, DELETE, PATCH, OPTIONS''"
    unfolding p h by (rule header_get_cors_headers)
  show "header_get (CORShttpHeaders ps rq next c) ''Access-Control-Allow-Credentials'' = ''true''"
    unfolding p h by (rule header_get_cors_headers)
next
  assume n: "\<not> isOriginAllowed ps (hdr_origin rq)"
  note r = ServeHTTP_refused [OF n, of ev st]
  show "status (ServeHTTP ps ev setupServer rq st) = 403" by (simp add: r Abort_def status_JSON)
  show "rbody (ServeHTTP ps ev setupServer rq st) =
        Some (JsonBody [''error'' \<mapsto> JStr ''Origin not allowed''])"
    by (simp add: r Abort_def rbody_JSON)
  show "db (ServeHTTP ps ev setupServer rq st) = st"
    by (simp add: r Abort_def db_JSON Header_def new_ctx_def)
  show "calls (ServeHTTP ps ev setupServer rq st) = []"
    by (simp add: r Abort_def calls_JSON Header_def new_ctx_def)
next
  assume "isOriginAllowed ps (hdr_origin rq) \<and> req_method rq = ''OPTIONS''"
  then have p: "ServeHTTP ps ev setupServer rq st =
                  AbortWithStatus 204 (cors_headers (hdr_origin rq) (new_ctx st))"
    using ServeHTTP_preflight by blast
  have h: "\<And>k c. header_get (AbortWithStatus 204 c) k = header_get c k"
    by (simp add: AbortWithStatus_def header_get_def)
  show "status (ServeHTTP ps ev setupServer rq st) = 204" by (simp add: p AbortWithStatus_def)
  show "rbody (ServeHTTP ps ev setupServer rq st) = None"
    by (simp add: p AbortWithStatus_def cors_headers_frame new_ctx_def)
  show "header_get (ServeHTTP ps ev setupServer rq st) ''Access-Control-Allow-Origin'' = hdr_origin rq"
    unfolding p h by (rule header_get_cors_headers)
qed

text \<open>A list of two origins: a third origin is refused, a preflight from the second is answered.\<close>

theorem CORS_policy_witness:
  "AllowOrigin ps_listed \<noteq> ''*'' \<and>
   Split (AllowOrigin ps_listed) = [''https://ok.example'', ''https://app.example''] \<and>
   \<not> isOriginAllowed ps_listed (hdr_origin rq_evil) \<and>
   status (ServeHTTP ps_listed ev_ok setupServer rq_evil empty_store) = 403 \<and>
   rbody (ServeHTTP ps_listed ev_ok setupServer rq_evil empty_store) =
     Some (JsonBody [''error'' \<mapsto> JStr ''Origin not allowed'']) \<and>
   isOriginAllowed ps_listed (hdr_origin rq_preflight) \<and>
   req_method rq_preflight = ''OPTIONS'' \<and>
   status (ServeHTTP ps_listed ev_ok setupServer rq_preflight empty_store) = 204 \<and>
   rbody (ServeHTTP ps_listed ev_ok setupServer rq_preflight empty_store) = None \<and>
   header_get (ServeHTTP ps_listed ev_ok setupServer rq_preflight empty_store)
     ''Access-Control-Allow-Origin'' = ''https://app.example''"
proof -
  have sp: "Split (AllowOrigin ps_listed) = [''https://ok.example'', ''https://app.example'']"
    by (simp add: ps_listed_def)
  have ns: "AllowOrigin ps_listed \<noteq> ''*''" by (simp add: ps_listed_def)
  have o: "hdr_origin rq_evil = ''https://evil.example''"
    "hdr_origin rq_preflight = ''https://app.example''" "req_method rq_preflight = ''OPTIONS''"
    by (simp_all add: rq_evil_def rq_preflight_def)
  note T = CORS_policy [where ps = ps_listed and ev = ev_ok and st = empty_store]
  have evil: "\<not> isOriginAllowed ps_listed (hdr_origin rq_evil)"
    using T [where origin = "hdr_origin rq_evil", THEN conjunct2, THEN conjunct2, THEN conjunct2, THEN conjunct1] ns
    by (simp add: sp o)
  have app: "isOriginAllowed ps_listed (hdr_origin rq_preflight)"
    using T [where origin = "hdr_origin rq_preflight", THEN conjunct2, THEN conjunct2, THEN conjunct2, THEN conjunct1] ns
    by (simp add: sp o)
  have r403: "status (ServeHTTP ps_listed ev_ok setupServer rq_evil empty_store) = 403 \<and>
      rbody (ServeHTTP ps_listed ev_ok setupServer rq_evil empty_store) =
        Some (JsonBody [''error'' \<mapsto> JStr ''Origin not allowed''])"
    using T [where rq = rq_evil] evil by blast
  have r204: "status (ServeHTTP ps_listed ev_ok setupServer rq_preflight empty_store) = 204 \<and>
      rbody (ServeHTTP ps_listed ev_ok setupServer rq_preflight empty_store) = None \<and>
      header_get (ServeHTTP ps_listed ev_ok setupServer rq_preflight empty_store)
        ''Access-Control-Allow-Origin'' = hdr_origin rq_preflight"
    using T [where rq = rq_preflight] app o(3) by blast
  from ns sp evil app r403 r204 o show ?thesis by simp
qed

subsection \<open>The ping route\<close>






subsection \<open>The invariant of the reachable states\<close>

lemma redis_zadd_fst:
  "faulty st k = None \<Longrightarrow> \<forall>v e. keyspace st k \<noteq> Some (RString v e) \<Longrightarrow>
   fst (redis_zadd st t k s m) = None"
  by (auto simp: redis_zadd_def visible_def split: option.splits rvalue.splits)

lemma redis_zrem_fst:
  "faulty st k = None \<Longrightarrow> \<forall>v e. keyspace st k \<noteq> Some (RString v e) \<Longrightarrow>
   fst (redis_zrem st t k m) = None"
  by (auto simp: redis_zrem_def visible_def split: option.splits rvalue.splits)

lemma redis_zrem_no_string:
  "\<forall>v e. keyspace st k \<noteq> Some (RString v e) \<Longrightarrow>
   keyspace (snd (redis_zrem st t k m)) k \<noteq> Some (RString v' e')"
  by (auto simp: redis_zrem_def visible_def split: option.splits rvalue.splits)

lemma well_typedD:
  assumes "well_typed st"
  shows "faulty st k = None" and "forward_mapping st c \<noteq> Some (RZSet z)"
    and "keyspace st (''backend:'' @ b) \<noteq> Some (RString v e)"
  using assms by (simp_all add: well_typed_def)

lemma AddActive_ok:
  assumes wt: "well_typed st"
  shows "fst (AddActiveRequestToBackend ps st t b c) = None"
proof -
  let ?st1 = "snd (redis_set st t (''client:'' @ c) b (MappingTTL ps))"
  have 1: "fst (redis_set st t (''client:'' @ c) b (MappingTTL ps)) = None"
    by (simp only: fst_redis_set well_typedD(1) [OF wt])
  have f: "faulty ?st1 (''backend:'' @ b) = None"
    by (simp only: faulty_redis_set well_typedD(1) [OF wt])
  have "keyspace ?st1 (''backend:'' @ b) = keyspace st (''backend:'' @ b)"
    by (rule keyspace_redis_set_other) simp
  then have "\<forall>v e. keyspace ?st1 (''backend:'' @ b) \<noteq> Some (RString v e)"
    using well_typedD(3) [OF wt] by simp
  from redis_zadd_fst [OF f this] 1 show ?thesis by (simp only: AddActive_fst simp_thms)
qed

lemma forward_mapping_AddActive_same:
  "well_typed st \<Longrightarrow>
   forward_mapping (snd (AddActiveRequestToBackend ps st t b c)) c =
     Some (RString b (if 0 < MappingTTL ps then Some (t + MappingTTL ps) else None))"
  unfolding forward_mapping_def by (rule AddActive_client_key [OF AddActive_ok])

lemma forward_mapping_AddActive_other:
  "c' \<noteq> c \<Longrightarrow>
   forward_mapping (snd (AddActiveRequestToBackend ps st t b c)) c' = forward_mapping st c'"
  unfolding forward_mapping_def by (rule AddActive_keyspace_other) simp_all

lemma active_set_AddActive_same:
  "well_typed st \<Longrightarrow>
   active_set (snd (AddActiveRequestToBackend ps st t b c)) b = zset_put c t (active_set st b)"
  by (rule active_set_of_key [OF AddActive_active_set [OF AddActive_ok]])

lemma active_set_AddActive_other:
  "b' \<noteq> b \<Longrightarrow>
   active_set (snd (AddActiveRequestToBackend ps st t b c)) b' = active_set st b'"
  by (rule active_set_cong, rule AddActive_keyspace_other) simp_all

lemma forward_mapping_zrem:
  "forward_mapping (snd (redis_zrem st t (''backend:'' @ b) m)) c = forward_mapping st c"
  unfolding forward_mapping_def by (rule keyspace_redis_zrem_other) simp

lemma active_set_zrem_same:
  assumes wt: "well_typed st"
  shows "active_set (snd (redis_zrem st t (''backend:'' @ b) m)) b = zset_del m (active_set st b)"
proof -
  have "\<forall>v e. keyspace st (''backend:'' @ b) \<noteq> Some (RString v e)"
    using well_typedD(3) [OF wt] by blast
  from redis_zrem_active [OF redis_zrem_fst [OF well_typedD(1) [OF wt] this]] show ?thesis .
qed

lemma active_set_zrem_other:
  "b' \<noteq> b \<Longrightarrow> active_set (snd (redis_zrem st t (''backend:'' @ b) m)) b' = active_set st b'"
  by (rule active_set_cong, rule keyspace_redis_zrem_other) simp

lemma set_zset_put: "set (zset_put m s z) = insert (m, s) {p \<in> set z. fst p \<noteq> m}"
  by (auto simp: zset_put_def)

lemma set_zset_del: "set (zset_del m z) = {p \<in> set z. fst p \<noteq> m}"
  by (auto simp: zset_del_def)

lemma well_typed_empty: "well_typed empty_store"
  by (simp add: well_typed_def empty_store_def forward_mapping_def)

lemma well_typed_AddActive:
  assumes wt: "well_typed st"
  shows "well_typed (snd (AddActiveRequestToBackend ps st t b c))"
proof -
  let ?st' = "snd (AddActiveRequestToBackend ps st t b c)"
  have 1: "faulty ?st' = Map.empty"
    using wt by (simp add: AddActive_faulty well_typed_def)
  have 2: "forward_mapping ?st' c' \<noteq> Some (RZSet z)" for c' z
  proof (cases "c' = c")
    case True
    then show ?thesis by (simp add: forward_mapping_AddActive_same [OF wt])
  next
    case False
    then show ?thesis by (simp add: forward_mapping_AddActive_other well_typedD(2) [OF wt])
  qed
  have 3: "keyspace ?st' (''backend:'' @ b') \<noteq> Some (RString v e)" for b' v e
  proof (cases "b' = b")
    case True
    show ?thesis unfolding True by (simp only: AddActive_active_set [OF AddActive_ok [OF wt]]) simp
  next
    case False
    have "keyspace ?st' (''backend:'' @ b') = keyspace st (''backend:'' @ b')"
      by (rule AddActive_keyspace_other) (use False in simp_all)
    then show ?thesis using well_typedD(3) [OF wt] by simp
  qed
  show ?thesis unfolding well_typed_def using 1 2 3 by blast
qed

lemma well_typed_zrem:
  assumes wt: "well_typed st"
  shows "well_typed (snd (redis_zrem st t (''backend:'' @ b) m))"
proof -
  let ?st' = "snd (redis_zrem st t (''backend:'' @ b) m)"
  have 1: "faulty ?st' = Map.empty"
    using wt by (simp add: faulty_redis_zrem well_typed_def)
  have 2: "forward_mapping ?st' c' \<noteq> Some (RZSet z)" for c' z
    by (simp only: forward_mapping_zrem) (rule well_typedD(2) [OF wt])
  have 3: "keyspace ?st' (''backend:'' @ b') \<noteq> Some (RString v e)" for b' v e
  proof (cases "b' = b")
    case True
    have "\<forall>v e. keyspace st (''backend:'' @ b) \<noteq> Some (RString v e)"
      using well_typedD(3) [OF wt] by blast
    then show ?thesis unfolding True by (rule redis_zrem_no_string)
  next
    case False
    have "keyspace ?st' (''backend:'' @ b') = keyspace st (''backend:'' @ b')"
      by (rule keyspace_redis_zrem_other) (use False in simp)
    then show ?thesis using well_typedD(3) [OF wt] by simp
  qed
  show ?thesis unfolding well_typed_def using 1 2 3 by blast
qed

lemma mapping_covers_empty: "mapping_covers ps empty_store t"
  by (simp add: mapping_covers_def active_set_def empty_store_def)

lemma mapping_covers_tick:
  assumes "mapping_covers ps st t" and "t \<le> t'"
  shows "mapping_covers ps st t'"
  unfolding mapping_covers_def
proof (intro allI impI)
  fix b c s
  assume "(c, s) \<in> set (active_set st b)"
  with assms(1) have 1: "s \<le> t"
    and 2: "t \<le> s + MappingTTL ps \<longrightarrow>
          (\<exists>e. forward_mapping st c = Some (RString b e) \<and>
               (case e of None \<Rightarrow> True | Some x \<Rightarrow> s + MappingTTL ps \<le> x))"
    unfolding mapping_covers_def by blast+
  show "s \<le> t' \<and> (t' \<le> s + MappingTTL ps \<longrightarrow>
          (\<exists>e. forward_mapping st c = Some (RString b e) \<and>
               (case e of None \<Rightarrow> True | Some x \<Rightarrow> s + MappingTTL ps \<le> x)))"
    using 1 2 assms(2) by auto
qed

lemma mapping_covers_zrem:
  assumes wt: "well_typed st" and cov: "mapping_covers ps st t"
  shows "mapping_covers ps (snd (redis_zrem st t' (''backend:'' @ b) m)) t"
  unfolding mapping_covers_def
proof (intro allI impI)
  let ?st' = "snd (redis_zrem st t' (''backend:'' @ b) m)"
  fix b' c s
  assume in': "(c, s) \<in> set (active_set ?st' b')"
  have "(c, s) \<in> set (active_set st b')"
  proof (cases "b' = b")
    case True
    from in' [unfolded True active_set_zrem_same [OF wt] set_zset_del]
    show ?thesis unfolding True by simp
  next
    case False
    from in' [unfolded active_set_zrem_other [OF False]] show ?thesis .
  qed
  with cov have "s \<le> t \<and> (t \<le> s + MappingTTL ps \<longrightarrow>
          (\<exists>e. forward_mapping st c = Some (RString b' e) \<and>
               (case e of None \<Rightarrow> True | Some x \<Rightarrow> s + MappingTTL ps \<le> x)))"
    unfolding mapping_covers_def by blast
  then show "s \<le> t \<and> (t \<le> s + MappingTTL ps \<longrightarrow>
          (\<exists>e. forward_mapping ?st' c = Some (RString b' e) \<and>
               (case e of None \<Rightarrow> True | Some x \<Rightarrow> s + MappingTTL ps \<le> x)))"
    unfolding forward_mapping_zrem .
qed

lemma mapping_covers_AddActive:
  assumes wt: "well_typed st" and cov: "mapping_covers ps st t"
      and stale: "\<And>b' s. b' \<noteq> b \<Longrightarrow> (c, s) \<in> set (active_set st b') \<Longrightarrow> \<not> t \<le> s + MappingTTL ps"
  shows "mapping_covers ps (snd (AddActiveRequestToBackend ps st t b c)) t"
  unfolding mapping_covers_def
proof (intro allI impI)
  let ?st' = "snd (AddActiveRequestToBackend ps st t b c)"
  let ?P = "\<lambda>st b' c' s. s \<le> t \<and> (t \<le> s + MappingTTL ps \<longrightarrow>
          (\<exists>e. forward_mapping st c' = Some (RString b' e) \<and>
               (case e of None \<Rightarrow> True | Some x \<Rightarrow> s + MappingTTL ps \<le> x)))"
  fix b' c' s
  assume in': "(c', s) \<in> set (active_set ?st' b')"
  have old: "?P st b' c' s" if "(c', s) \<in> set (active_set st b')"
    using cov that unfolding mapping_covers_def by blast
  have new: "?P ?st' b c t"
    by (simp add: forward_mapping_AddActive_same [OF wt])
  show "?P ?st' b' c' s"
  proof (cases "c' = c")
    case True
    show ?thesis
    proof (cases "b' = b")
      case b: True
      from in' [unfolded b True active_set_AddActive_same [OF wt] set_zset_put]
      have st: "s = t" by simp
      show ?thesis unfolding st b True by (rule new)
    next
      case b: False
      from in' [unfolded True active_set_AddActive_other [OF b]]
      have m: "(c, s) \<in> set (active_set st b')" .
      from stale [OF b m] old [unfolded True, OF m] show ?thesis unfolding True by simp
    qed
  next
    case False
    have "(c', s) \<in> set (active_set st b')"
    proof (cases "b' = b")
      case True
      from in' [unfolded True active_set_AddActive_same [OF wt] set_zset_put]
      show ?thesis unfolding True using False by simp
    next
      case b: False
      from in' [unfolded active_set_AddActive_other [OF b]] show ?thesis .
    qed
    from old [OF this] show ?thesis
      unfolding forward_mapping_AddActive_other [OF False] .
  qed
qed

lemma HandleStart_db_cases:
  "db (HandleStart ps ev req clientID c) = db c \<or>
   (\<exists>b. getOrAssignBackend ps (db c) (t_lookup ev) clientID = Inr b \<and>
        db (HandleStart ps ev req clientID c) =
          snd (AddActiveRequestToBackend ps (db c) (t_record ev) b clientID))"
proof (cases rule: HandleStart_cases [of ps c ev clientID req])
  case (object b code kvs)
  then show ?thesis
    by (cases "200 \<le> code \<and> code < 300") (auto simp: db_JSON)
qed (simp_all add: db_JSON)

lemma getOrAssignBackend_present:
  "redis_get st now (''client:'' @ c) = Inr b \<Longrightarrow> getOrAssignBackend ps st now c = Inr b"
  by (simp add: getOrAssignBackend_def)

lemma lookup_stale:
  assumes wt: "well_typed st" and cov: "mapping_covers ps st t"
      and a: "getOrAssignBackend ps st t c = Inr b"
      and ne: "b' \<noteq> b" and m: "(c, s) \<in> set (active_set st b')"
  shows "\<not> t \<le> s + MappingTTL ps"
proof
  assume "t \<le> s + MappingTTL ps"
  with cov m obtain e where e: "forward_mapping st c = Some (RString b' e)"
    "case e of None \<Rightarrow> True | Some x \<Rightarrow> s + MappingTTL ps \<le> x"
    unfolding mapping_covers_def by blast
  have "case e of None \<Rightarrow> True | Some x \<Rightarrow> t \<le> x"
    using e(2) \<open>t \<le> s + MappingTTL ps\<close> by (cases e) auto
  with e(1) have "redis_get st t (''client:'' @ c) = Inr b'"
    unfolding forward_mapping_def by (intro redis_get_string [OF well_typedD(1) [OF wt]])
  then have "getOrAssignBackend ps st t c = Inr b'" by (rule getOrAssignBackend_present)
  with a ne show False by simp
qed

lemma reachable_invariant:
  "reachable ps st t \<Longrightarrow> well_typed st \<and> mapping_covers ps st t"
proof (induction rule: reachable.induct)
  case (init t)
  show ?case by (simp add: well_typed_empty mapping_covers_empty)
next
  case (tick st t t')
  then show ?case using mapping_covers_tick by blast
next
  case (start st t ev req clientID)
  then have wt: "well_typed st" and cov: "mapping_covers ps st t" by simp_all
  have cov1: "mapping_covers ps st (t_lookup ev)"
    by (rule mapping_covers_tick [OF cov start.hyps(2)])
  have cov2: "mapping_covers ps st (t_record ev)"
    by (rule mapping_covers_tick [OF cov1 start.hyps(3)])
  from HandleStart_db_cases [of ps ev req clientID "new_ctx st"]
  consider "db (HandleStart ps ev req clientID (new_ctx st)) = st"
    | b where "getOrAssignBackend ps st (t_lookup ev) clientID = Inr b"
        "db (HandleStart ps ev req clientID (new_ctx st)) =
           snd (AddActiveRequestToBackend ps st (t_record ev) b clientID)"
    by (auto simp: new_ctx_def)
  then show ?case
  proof cases
    case 1
    then show ?thesis using wt cov2 by simp
  next
    case 2
    have stale: "\<not> t_record ev \<le> s + MappingTTL ps"
      if "b' \<noteq> b" "(clientID, s) \<in> set (active_set st b')" for b' s
      using lookup_stale [OF wt cov1 2(1) that] start.hyps(3) by simp
    have "mapping_covers ps (snd (AddActiveRequestToBackend ps st (t_record ev) b clientID))
            (t_record ev)"
      by (rule mapping_covers_AddActive [OF wt cov2]) (use stale in blast)
    then show ?thesis
      unfolding 2(2) using well_typed_AddActive [OF wt] by blast
  qed
next
  case (stop st t ev req clientID)
  then have wt: "well_typed st" and cov: "mapping_covers ps st t" by simp_all
  have cov2: "mapping_covers ps st (t_record ev)"
    using mapping_covers_tick [OF mapping_covers_tick [OF cov stop.hyps(2)] stop.hyps(3)] .
  from HandleStop_db_cases [of ps ev req clientID "new_ctx st"]
  consider "db (HandleStop ps ev req clientID (new_ctx st)) = st"
    | b where "db (HandleStop ps ev req clientID (new_ctx st)) =
           snd (redis_zrem st (t_record ev) (''backend:'' @ b) clientID)"
    by (auto simp: new_ctx_def)
  then show ?case
  proof cases
    case 1
    then show ?thesis using wt cov2 by simp
  next
    case 2
    show ?thesis
      unfolding 2
      using well_typed_zrem [OF wt] mapping_covers_zrem [OF wt cov2] by blast
  qed
qed

text \<open>
  C9. In every state reached from the empty store by start and stop requests handled one
  after the other (whatever the backends answer, on a store whose commands do not fail, with
  one clock for the router and the store), a client is a live member, with a score within
  \<open>[now - TTL, now]\<close>, of the active set of at most one backend.
\<close>

theorem one_backend_per_client:
  assumes "reachable ps st now"
      and "live_member ps st now clientID b" and "live_member ps st now clientID b'"
  shows "b = b'"
proof -
  from reachable_invariant [OF assms(1)] have cov: "mapping_covers ps st now" by simp
  from assms(2) obtain s where s: "(clientID, s) \<in> set (active_set st b)" "now \<le> s + MappingTTL ps"
    by (auto simp: live_member_def list_ex_iff live_def)
  from assms(3) obtain s' where s': "(clientID, s') \<in> set (active_set st b')" "now \<le> s' + MappingTTL ps"
    by (auto simp: live_member_def list_ex_iff live_def)
  from cov s obtain e where "forward_mapping st clientID = Some (RString b e)"
    unfolding mapping_covers_def by blast
  moreover from cov s' obtain e' where "forward_mapping st clientID = Some (RString b' e')"
    unfolding mapping_covers_def by blast
  ultimately show ?thesis by simp
qed

text \<open>After one start the client is live on the first backend and on no other.\<close>

theorem one_backend_per_client_witness:
  "reachable ps_two (db (HandleStart ps_two ev_ok req_c1 ''id-1'' (new_ctx empty_store))) 1500 \<and>
   live_member ps_two (db (HandleStart ps_two ev_ok req_c1 ''id-1'' (new_ctx empty_store))) 1500
     ''id-1'' ''10.0.0.1'' \<and>
   \<not> live_member ps_two (db (HandleStart ps_two ev_ok req_c1 ''id-1'' (new_ctx empty_store))) 1500
     ''id-1'' ''10.0.0.2''"
proof -
  let ?c = "new_ctx empty_store"
  let ?S = "db (HandleStart ps_two ev_ok req_c1 ''id-1'' ?c)"
  have "reachable ps_two ?S (t_record ev_ok)"
    by (rule reachable.start [OF reachable.init [of ps_two 1000]]) (simp_all add: ex_start_facts)
  then have r: "reachable ps_two ?S 1500" by (simp add: ex_start_facts)
  have a: "getOrAssignBackend ps_two (db ?c) (t_lookup ev_ok) ''id-1'' = Inr ''10.0.0.1''"
    using ex_assign_first by (simp add: new_ctx_def ex_start_facts)
  have code: "(200::int) \<le> 200 \<and> (200::int) < 300" by simp
  have d1: "?S = snd (AddActiveRequestToBackend ps_two empty_store 1500 ''10.0.0.1'' ''id-1'')"
    using HandleStart_db_recorded [OF a ex_start_facts(1,2) code]
    by (simp add: new_ctx_def ex_start_facts)
  have "active_set ?S ''10.0.0.1'' = zset_put ''id-1'' 1500 (active_set empty_store ''10.0.0.1'')"
    unfolding d1 by (rule active_set_AddActive_same [OF well_typed_empty])
  then have "active_set ?S ''10.0.0.1'' = [(''id-1'', 1500)]"
    by (simp add: zset_put_def active_set_def empty_store_def)
  then have l: "live_member ps_two ?S 1500 ''id-1'' ''10.0.0.1''"
    by (simp add: live_member_def live_def ps_two_def)
  have "\<not> live_member ps_two ?S 1500 ''id-1'' ''10.0.0.2''"
  proof
    assume "live_member ps_two ?S 1500 ''id-1'' ''10.0.0.2''"
    from one_backend_per_client [OF r l this] show False by simp
  qed
  with r l show ?thesis by blast
qed

subsection \<open>The required uid\<close>

text \<open>
  C10. A start or stop request whose body is a JSON object without the member \<open>uid\<close>, or
  with \<open>uid\<close> equal to 0, is answered 400 by \<open>c.JSON\<close> alone, so with no upstream
  request and nothing read from or written to the store, whatever the member
  \<open>channel_name\<close> is.
\<close>

theorem uid_required:
  assumes "req_body rq = Object f"
      and "uid_member f = None \<or> uid_member f = Some (JNum 0)"
  shows "validateAndHandleStart ps ev rq c = JSON 400 [''error'' \<mapsto> JStr ''Invalid request body''] c \<and>
         validateAndHandleStop ps ev rq c = JSON 400 [''error'' \<mapsto> JStr ''Invalid request body''] c \<and>
         status (validateAndHandleStart ps ev rq c) = 400 \<and>
         rbody (validateAndHandleStart ps ev rq c) =
           Some (JsonBody [''error'' \<mapsto> JStr ''Invalid request body'']) \<and>
         calls (validateAndHandleStart ps ev rq c) = calls c \<and>
         db (validateAndHandleStart ps ev rq c) = db c \<and>
         status (validateAndHandleStop ps ev rq c) = 400 \<and>
         rbody (validateAndHandleStop ps ev rq c) =
           Some (JsonBody [''error'' \<mapsto> JStr ''Invalid request body'']) \<and>
         calls (validateAndHandleStop ps ev rq c) = calls c \<and>
         db (validateAndHandleStop ps ev rq c) = db c"
proof -
  have "decodeInt (uid_member f) = Some 0" using assms(2) by auto
  then have "\<exists>e. ShouldBindJSON (req_body rq) = Inl e"
    by (simp add: ShouldBindJSON_def assms(1) split: option.splits)
  then show ?thesis
    by (auto simp: validateAndHandleStart_def validateAndHandleStop_def status_JSON rbody_JSON
          calls_JSON db_JSON)
qed

text \<open>A body with a channel name and no uid.\<close>

theorem uid_required_witness:
  "req_body rq_no_uid =
     Object \<lparr>channel_name_member = Some (JStr ''c1''), uid_member = None\<rparr> \<and>
   status (validateAndHandleStart ps_two ev_ok rq_no_uid (new_ctx empty_store)) = 400 \<and>
   calls (validateAndHandleStart ps_two ev_ok rq_no_uid (new_ctx empty_store)) = [] \<and>
   db (validateAndHandleStart ps_two ev_ok rq_no_uid (new_ctx empty_store)) = empty_store \<and>
   status (validateAndHandleStop ps_two ev_ok rq_no_uid (new_ctx empty_store)) = 400 \<and>
   calls (validateAndHandleStop ps_two ev_ok rq_no_uid (new_ctx empty_store)) = [] \<and>
   db (validateAndHandleStop ps_two ev_ok rq_no_uid (new_ctx empty_store)) = empty_store"
proof -
  have b: "req_body rq_no_uid =
     Object \<lparr>channel_name_member = Some (JStr ''c1''), uid_member = None\<rparr>"
    by (simp add: rq_no_uid_def)
  have u: "uid_member \<lparr>channel_name_member = Some (JStr ''c1''), uid_member = None\<rparr> = None \<or>
           uid_member \<lparr>channel_name_member = Some (JStr ''c1''), uid_member = None\<rparr> = Some (JNum 0)"
    by simp
  from uid_required [OF b u, of ps_two ev_ok "new_ctx empty_store", THEN conjunct2, THEN conjunct2] b
  show ?thesis
    by (simp add: new_ctx_def)
qed


end
